theory Spec2Isabelle
  imports Complex_Main "HOL-Library.AList"
begin

section \<open>Data model\<close>

text \<open>
  Python dictionaries are association lists with distinct keys in insertion order
  (\<open>AList.update\<close> replaces a value in place and appends a new key at the end, as a
  Python \<open>dict\<close> does).  Strings are byte lists; the non-ASCII literals of the source
  are written as their UTF-8 bytes.
\<close>

text \<open>One entry of a crawl result: \<open>{"ranks": [...], "url": ..., "mobileUrl": ...}\<close>;
  every key may be absent (the source reads them with \<open>.get\<close>).\<close>

record title_data =
  ranks :: "int list option"
  url :: "string option"
  mobileUrl :: "string option"

type_synonym titles_by_source = "(string \<times> (string \<times> title_data) list) list"

text \<open>One keyword-group statistic as produced by the frequency classifier; only the
  \<open>"count"\<close> key is read by the orchestrator.\<close>

record stat =
  word :: string
  count :: int

section \<open>Content validity gate\<close>

text \<open>The inline expression
  \<open>bool(new_titles and any(len(titles) > 0 for titles in new_titles.values()))\<close>:
  \<open>None\<close> and the empty dictionary are falsy.\<close>

definition any_new_titles :: "titles_by_source option \<Rightarrow> bool" where
  "any_new_titles new_titles =
     (case new_titles of
        None \<Rightarrow> False
      | Some d \<Rightarrow> d \<noteq> [] \<and> list_ex (\<lambda>titles. length titles > 0) (map snd d))"

text \<open>\<open>NewsAnalyzer._has_valid_content\<close>; the first argument is \<open>self.report_mode\<close>.\<close>

definition has_valid_content :: "string \<Rightarrow> stat list \<Rightarrow> titles_by_source option \<Rightarrow> bool" where
  "has_valid_content report_mode stats new_titles =
     (if report_mode = ''incremental'' then
        (let has_new_titles = any_new_titles new_titles;
             has_matched_news = list_ex (\<lambda>stat. count stat > 0) stats
         in has_new_titles \<and> has_matched_news)
      else if report_mode = ''current'' then
        list_ex (\<lambda>stat. count stat > 0) stats
      else
        (let has_matched_news = list_ex (\<lambda>stat. count stat > 0) stats;
             has_new_news = any_new_titles new_titles
         in has_matched_news \<or> has_new_news))"

section \<open>Mode strategies\<close>

text \<open>The exceptions derived from \<open>Exception\<close> that the sources name, and one constructor
  for all others.\<close>

datatype error = RequestException | KeyError | ValueError | RuntimeError | OtherException

record mode_strategy =
  mode_name :: string
  description :: string
  realtime_report_type :: string
  summary_report_type :: string
  should_send_realtime :: bool
  should_generate_summary :: bool
  summary_mode :: string

text \<open>The string literals of \<open>MODE_STRATEGIES\<close> (and the literal of
  \<open>"..." in report_type\<close>) as UTF-8 bytes.\<close>

definition REALTIME_INCREMENTAL :: string where
  \<comment> \<open>realtime report type of the incremental mode (line 76)\<close>
  "REALTIME_INCREMENTAL =
     [CHR 0xE5, CHR 0xAE, CHR 0x9E, CHR 0xE6, CHR 0x97, CHR 0xB6, CHR 0xE5, CHR 0xA2,
      CHR 0x9E, CHR 0xE9, CHR 0x87, CHR 0x8F]"

definition DAILY_SUMMARY :: string where
  \<comment> \<open>summary report type of the incremental and daily modes (lines 77, 95)\<close>
  "DAILY_SUMMARY =
     [CHR 0xE5, CHR 0xBD, CHR 0x93, CHR 0xE6, CHR 0x97, CHR 0xA5, CHR 0xE6, CHR 0xB1,
      CHR 0x87, CHR 0xE6, CHR 0x80, CHR 0xBB]"

definition REALTIME_CURRENT :: string where
  \<comment> \<open>realtime report type of the current mode (line 85)\<close>
  "REALTIME_CURRENT =
     [CHR 0xE5, CHR 0xAE, CHR 0x9E, CHR 0xE6, CHR 0x97, CHR 0xB6, CHR 0xE5, CHR 0xBD,
      CHR 0x93, CHR 0xE5, CHR 0x89, CHR 0x8D, CHR 0xE6, CHR 0xA6, CHR 0x9C, CHR 0xE5,
      CHR 0x8D, CHR 0x95]"

definition CURRENT_SUMMARY :: string where
  \<comment> \<open>summary report type of the current mode (line 86)\<close>
  "CURRENT_SUMMARY =
     [CHR 0xE5, CHR 0xBD, CHR 0x93, CHR 0xE5, CHR 0x89, CHR 0x8D, CHR 0xE6, CHR 0xA6,
      CHR 0x9C, CHR 0xE5, CHR 0x8D, CHR 0x95, CHR 0xE6, CHR 0xB1, CHR 0x87, CHR 0xE6,
      CHR 0x80, CHR 0xBB]"

definition REALTIME_MARK :: string where
  \<comment> \<open>the two-character literal tested by \<open>in report_type\<close> (line 438)\<close>
  "REALTIME_MARK =
     [CHR 0xE5, CHR 0xAE, CHR 0x9E, CHR 0xE6, CHR 0x97, CHR 0xB6]"

definition INCREMENTAL_NAME :: string where
  "INCREMENTAL_NAME =
     [CHR 0xE5, CHR 0xA2, CHR 0x9E, CHR 0xE9, CHR 0x87, CHR 0x8F, CHR 0xE6, CHR 0xA8,
      CHR 0xA1, CHR 0xE5, CHR 0xBC, CHR 0x8F]"

definition CURRENT_NAME :: string where
  "CURRENT_NAME =
     [CHR 0xE5, CHR 0xBD, CHR 0x93, CHR 0xE5, CHR 0x89, CHR 0x8D, CHR 0xE6, CHR 0xA6,
      CHR 0x9C, CHR 0xE5, CHR 0x8D, CHR 0x95, CHR 0xE6, CHR 0xA8, CHR 0xA1, CHR 0xE5,
      CHR 0xBC, CHR 0x8F]"

definition DAILY_NAME :: string where
  "DAILY_NAME =
     [CHR 0xE5, CHR 0xBD, CHR 0x93, CHR 0xE6, CHR 0x97, CHR 0xA5, CHR 0xE6, CHR 0xB1,
      CHR 0x87, CHR 0xE6, CHR 0x80, CHR 0xBB, CHR 0xE6, CHR 0xA8, CHR 0xA1, CHR 0xE5,
      CHR 0xBC, CHR 0x8F]"

definition INCREMENTAL_DESCRIPTION :: string where
  "INCREMENTAL_DESCRIPTION =
     [CHR 0xE5, CHR 0xA2, CHR 0x9E, CHR 0xE9, CHR 0x87, CHR 0x8F, CHR 0xE6, CHR 0xA8,
      CHR 0xA1, CHR 0xE5, CHR 0xBC, CHR 0x8F, CHR 0xEF, CHR 0xBC, CHR 0x88, CHR 0xE5,
      CHR 0x8F, CHR 0xAA, CHR 0xE5, CHR 0x85, CHR 0xB3, CHR 0xE6, CHR 0xB3, CHR 0xA8,
      CHR 0xE6, CHR 0x96, CHR 0xB0, CHR 0xE5, CHR 0xA2, CHR 0x9E, CHR 0xE6, CHR 0x96,
      CHR 0xB0, CHR 0xE9, CHR 0x97, CHR 0xBB, CHR 0xEF, CHR 0xBC, CHR 0x8C, CHR 0xE6,
      CHR 0x97, CHR 0xA0, CHR 0xE6, CHR 0x96, CHR 0xB0, CHR 0xE5, CHR 0xA2, CHR 0x9E,
      CHR 0xE6, CHR 0x97, CHR 0xB6, CHR 0xE4, CHR 0xB8, CHR 0x8D, CHR 0xE6, CHR 0x8E,
      CHR 0xA8, CHR 0xE9, CHR 0x80, CHR 0x81, CHR 0xEF, CHR 0xBC, CHR 0x89]"

definition CURRENT_DESCRIPTION :: string where
  "CURRENT_DESCRIPTION =
     [CHR 0xE5, CHR 0xBD, CHR 0x93, CHR 0xE5, CHR 0x89, CHR 0x8D, CHR 0xE6, CHR 0xA6,
      CHR 0x9C, CHR 0xE5, CHR 0x8D, CHR 0x95, CHR 0xE6, CHR 0xA8, CHR 0xA1, CHR 0xE5,
      CHR 0xBC, CHR 0x8F, CHR 0xEF, CHR 0xBC, CHR 0x88, CHR 0xE5, CHR 0xBD, CHR 0x93,
      CHR 0xE5, CHR 0x89, CHR 0x8D, CHR 0xE6, CHR 0xA6, CHR 0x9C, CHR 0xE5, CHR 0x8D,
      CHR 0x95, CHR 0xE5, CHR 0x8C, CHR 0xB9, CHR 0xE9, CHR 0x85, CHR 0x8D, CHR 0xE6,
      CHR 0x96, CHR 0xB0, CHR 0xE9, CHR 0x97, CHR 0xBB, CHR 0x20, CHR 0x2B, CHR 0x20,
      CHR 0xE6, CHR 0x96, CHR 0xB0, CHR 0xE5, CHR 0xA2, CHR 0x9E, CHR 0xE6, CHR 0x96,
      CHR 0xB0, CHR 0xE9, CHR 0x97, CHR 0xBB, CHR 0xE5, CHR 0x8C, CHR 0xBA, CHR 0xE5,
      CHR 0x9F, CHR 0x9F, CHR 0x20, CHR 0x2B, CHR 0x20, CHR 0xE6, CHR 0x8C, CHR 0x89,
      CHR 0xE6, CHR 0x97, CHR 0xB6, CHR 0xE6, CHR 0x8E, CHR 0xA8, CHR 0xE9, CHR 0x80,
      CHR 0x81, CHR 0xEF, CHR 0xBC, CHR 0x89]"

definition DAILY_DESCRIPTION :: string where
  "DAILY_DESCRIPTION =
     [CHR 0xE5, CHR 0xBD, CHR 0x93, CHR 0xE6, CHR 0x97, CHR 0xA5, CHR 0xE6, CHR 0xB1,
      CHR 0x87, CHR 0xE6, CHR 0x80, CHR 0xBB, CHR 0xE6, CHR 0xA8, CHR 0xA1, CHR 0xE5,
      CHR 0xBC, CHR 0x8F, CHR 0xEF, CHR 0xBC, CHR 0x88, CHR 0xE6, CHR 0x89, CHR 0x80,
      CHR 0xE6, CHR 0x9C, CHR 0x89, CHR 0xE5, CHR 0x8C, CHR 0xB9, CHR 0xE9, CHR 0x85,
      CHR 0x8D, CHR 0xE6, CHR 0x96, CHR 0xB0, CHR 0xE9, CHR 0x97, CHR 0xBB, CHR 0x20,
      CHR 0x2B, CHR 0x20, CHR 0xE6, CHR 0x96, CHR 0xB0, CHR 0xE5, CHR 0xA2, CHR 0x9E,
      CHR 0xE6, CHR 0x96, CHR 0xB0, CHR 0xE9, CHR 0x97, CHR 0xBB, CHR 0xE5, CHR 0x8C,
      CHR 0xBA, CHR 0xE5, CHR 0x9F, CHR 0x9F, CHR 0x20, CHR 0x2B, CHR 0x20, CHR 0xE6,
      CHR 0x8C, CHR 0x89, CHR 0xE6, CHR 0x97, CHR 0xB6, CHR 0xE6, CHR 0x8E, CHR 0xA8,
      CHR 0xE9, CHR 0x80, CHR 0x81, CHR 0xEF, CHR 0xBC, CHR 0x89]"

definition incremental_strategy :: mode_strategy where
  "incremental_strategy =
     \<lparr>mode_name = INCREMENTAL_NAME,
      description = INCREMENTAL_DESCRIPTION,
      realtime_report_type = REALTIME_INCREMENTAL,
      summary_report_type = DAILY_SUMMARY,
      should_send_realtime = True,
      should_generate_summary = True,
      summary_mode = ''daily''\<rparr>"

definition current_strategy :: mode_strategy where
  "current_strategy =
     \<lparr>mode_name = CURRENT_NAME,
      description = CURRENT_DESCRIPTION,
      realtime_report_type = REALTIME_CURRENT,
      summary_report_type = CURRENT_SUMMARY,
      should_send_realtime = True,
      should_generate_summary = True,
      summary_mode = ''current''\<rparr>"

definition daily_strategy :: mode_strategy where
  "daily_strategy =
     \<lparr>mode_name = DAILY_NAME,
      description = DAILY_DESCRIPTION,
      realtime_report_type = [],
      summary_report_type = DAILY_SUMMARY,
      should_send_realtime = False,
      should_generate_summary = True,
      summary_mode = ''daily''\<rparr>"

text \<open>\<open>NewsAnalyzer.MODE_STRATEGIES\<close>, a dictionary literal with three keys.\<close>

definition MODE_STRATEGIES :: "(string \<times> mode_strategy) list" where
  "MODE_STRATEGIES =
     [(''incremental'', incremental_strategy),
      (''current'', current_strategy),
      (''daily'', daily_strategy)]"

section \<open>Configuration and notification channels\<close>

text \<open>The configuration keys read by the orchestrator.  A credential that is not set is
  the empty string.  Nested keys are joined with an underscore
  (\<open>cfg["PUSH_WINDOW"]["ONCE_PER_DAY"]\<close> is \<open>PUSH_WINDOW_ONCE_PER_DAY\<close>).\<close>

record config =
  ENABLE_NOTIFICATION :: bool
  FEISHU_WEBHOOK_URL :: string
  DINGTALK_WEBHOOK_URL :: string
  WEWORK_WEBHOOK_URL :: string
  TELEGRAM_BOT_TOKEN :: string
  TELEGRAM_CHAT_ID :: string
  EMAIL_FROM :: string
  EMAIL_PASSWORD :: string
  EMAIL_TO :: string
  NTFY_SERVER_URL :: string
  NTFY_TOPIC :: string
  BARK_URL :: string
  SLACK_WEBHOOK_URL :: string
  PUSH_WINDOW_ENABLED :: bool
  PUSH_WINDOW_ONCE_PER_DAY :: bool
  PUSH_WINDOW_TIME_RANGE_START :: string
  PUSH_WINDOW_TIME_RANGE_END :: string
  STORAGE_FORMATS_HTML :: bool
  STORAGE_FORMATS_TXT :: bool

text \<open>Python truthiness of a string, and \<open>a and b\<close> on strings (which yields an
  operand, not a Boolean).\<close>

definition truthy :: "string \<Rightarrow> bool" where
  "truthy s = (s \<noteq> [])"

definition py_and :: "string \<Rightarrow> string \<Rightarrow> string" where
  "py_and a b = (if truthy a then b else a)"

text \<open>\<open>NewsAnalyzer._has_notification_configured\<close>: \<open>any\<close> over the eight list items.\<close>

definition has_notification_configured :: "config \<Rightarrow> bool" where
  "has_notification_configured cfg =
     list_ex truthy
       [FEISHU_WEBHOOK_URL cfg,
        DINGTALK_WEBHOOK_URL cfg,
        WEWORK_WEBHOOK_URL cfg,
        py_and (TELEGRAM_BOT_TOKEN cfg) (TELEGRAM_CHAT_ID cfg),
        py_and (py_and (EMAIL_FROM cfg) (EMAIL_PASSWORD cfg)) (EMAIL_TO cfg),
        py_and (NTFY_SERVER_URL cfg) (NTFY_TOPIC cfg),
        BARK_URL cfg,
        SLACK_WEBHOOK_URL cfg]"

section \<open>Effects: the trace of a cycle and the durable push record\<close>

type_synonym id_to_name = "(string \<times> string) list"

text \<open>Entry of the title history (\<open>title_info[source_id][title]\<close>); the key
  \<open>"count"\<close> is the field \<open>seen_count\<close>.\<close>

record title_info_entry =
  first_time :: string
  last_time :: string
  seen_count :: int
  info_ranks :: "int list"
  info_url :: string
  info_mobileUrl :: string

type_synonym title_info = "(string \<times> (string \<times> title_info_entry) list) list"

text \<open>\<open>(word_groups, filter_words, global_filters)\<close> as returned by
  \<open>load_frequency_words\<close>.\<close>

type_synonym frequency_words = "string list list \<times> string list \<times> string list"

text \<open>What the methods print, one constructor per \<open>print\<close> call.\<close>

datatype message =
    OutsidePushWindow string string
  | AlreadyPushedToday
  | FirstPushToday
  | NoChannelSkipSend
  | WarnNoChannelConfigured
  | NotificationDisabled string
  | SkipRealtimeNoNewTitles
  | SkipRealtimeNewNotMatched
  | SkipRealtimeNoMatch string
  | SkipSummaryNoContent string
  | GeneratingSummaryReport string
  | SummaryReportGenerated string string
  | GeneratingSummaryHtml string
  | SummaryHtmlGenerated string string
  | MonitoredPlatforms "string list"
  | NoDataToday
  | TitlesRead nat
  | LoadFailed error
  | CurrentModeUsesHistory "string list"
  | HtmlGenerated string
  | ConsistencyCheckFailed
  | OpeningSummaryReport string
  | OpeningHtmlReport string
  | SummaryGeneratedDocker string
  | HtmlGeneratedDocker string

text \<open>Calls to the external collaborators that have an effect outside the process, and
  the printed lines.  The content of a report (report data, version-update notice,
  extended market data, AI analysis) is produced by collaborators and is not modelled:
  only the calls are recorded, with the arguments that identify them.\<close>

datatype event =
    Print message
  | SaveTitles
  | GenerateHtml string bool
  | PrepareReport string
  | AddExtendedData
  | AddAiAnalysis
  | Dispatch string string "string option"
  | RecordPush string
  | OpenBrowser string

text \<open>The state threaded through a cycle: the trace so far and the report types recorded
  as pushed for the current calendar day (the durable state of the push manager).\<close>

record state =
  events :: "event list"
  push_records :: "string list"

definition emit :: "event \<Rightarrow> state \<Rightarrow> state" where
  "emit e s = s\<lparr>events := events s @ [e]\<rparr>"

text \<open>Modelled from the spec: the push manager (\<open>ctx.create_push_manager()\<close>) is not
  part of the sources.  Its \<open>hasPushedToday\<close>, called without a report type, reports
  whether a push has been recorded for the current date.\<close>

definition has_pushed_today :: "state \<Rightarrow> bool" where
  "has_pushed_today s = (push_records s \<noteq> [])"

text \<open>Modelled from the spec: \<open>recordPush\<close> of the push manager, which is not part of the
  sources, appends the report type to today's record.\<close>

definition record_push :: "string \<Rightarrow> state \<Rightarrow> state" where
  "record_push report_type s =
     emit (RecordPush report_type) (s\<lparr>push_records := push_records s @ [report_type]\<rparr>)"

text \<open>The analyzer's fields and the collaborators reached through \<open>self.ctx\<close>.  They are
  fixed for one cycle: a collaborator gives the same answer to the same question
  throughout (cycles do not run concurrently, and nothing in a cycle after the crawl
  writes the title history).  A collaborator call that the source guards with \<open>try\<close>
  somewhere may fail (\<open>Inl\<close>); the others are taken to return.\<close>

record env =
  cfg :: config
  report_mode :: string
  is_github_actions :: bool
  is_docker_container :: bool
  platform_ids :: "string list"
  format_time :: string
  is_in_time_range :: "string \<Rightarrow> string \<Rightarrow> bool"
  dispatch_all :: "string \<Rightarrow> string \<Rightarrow> string option \<Rightarrow> (string \<times> bool) list"
  read_today_titles :: "string list \<Rightarrow> error + (titles_by_source \<times> id_to_name \<times> title_info)"
  detect_new_titles :: "string list \<Rightarrow> error + titles_by_source"
  load_frequency_words :: "error + frequency_words"
  count_frequency ::
    "titles_by_source \<Rightarrow> frequency_words \<Rightarrow> id_to_name \<Rightarrow> title_info \<Rightarrow> titles_by_source
       \<Rightarrow> string \<Rightarrow> stat list \<times> int"
  generate_html :: "stat list \<Rightarrow> int \<Rightarrow> string \<Rightarrow> bool \<Rightarrow> string"
  resolve_path :: "string \<Rightarrow> string"

text \<open>\<open>NewsAnalyzer._get_mode_strategy\<close>.  It is written as a state transformer so that
  its output is part of the model: it prints nothing and leaves the state as it is.  The
  default \<open>self.MODE_STRATEGIES["daily"]\<close> is the third entry of the literal.\<close>

definition get_mode_strategy :: "env \<Rightarrow> state \<Rightarrow> mode_strategy \<times> state" where
  "get_mode_strategy env s =
     (case map_of MODE_STRATEGIES (report_mode env) of
        Some strategy \<Rightarrow> (strategy, s)
      | None \<Rightarrow> (daily_strategy, s))"

text \<open>Python's \<open>needle in haystack\<close> on strings.\<close>

fun contains :: "string \<Rightarrow> string \<Rightarrow> bool" where
  "contains needle [] = (needle = [])"
| "contains needle (c # cs) = (take (length needle) (c # cs) = needle \<or> contains needle cs)"

section \<open>Sending a notification\<close>

text \<open>\<open>any(results.values())\<close> on the outcome of a dispatch.\<close>

definition any_success :: "(string \<times> bool) list \<Rightarrow> bool" where
  "any_success results = list_ex (\<lambda>ok. ok) (map snd results)"

text \<open>Lines 390 to 426 of \<open>_send_notification_if_needed\<close>: the code reached when the push
  window control has not returned early.  The report is prepared and handed to the
  dispatcher; an empty outcome means that no channel was configured; the push is recorded
  when the window and its once-per-day rule are enabled and some channel succeeded.\<close>

definition prepare_and_dispatch ::
  "env \<Rightarrow> string \<Rightarrow> string \<Rightarrow> string option \<Rightarrow> state \<Rightarrow> bool \<times> state" where
  "prepare_and_dispatch env report_type mode html_file_path s =
     (let s1 = emit (PrepareReport mode) s;
          s2 = emit AddExtendedData s1;
          s3 = emit AddAiAnalysis s2;
          results = dispatch_all env report_type mode html_file_path;
          s4 = emit (Dispatch report_type mode html_file_path) s3
      in if results = [] then (False, emit (Print NoChannelSkipSend) s4)
         else if PUSH_WINDOW_ENABLED (cfg env) \<and> PUSH_WINDOW_ONCE_PER_DAY (cfg env)
                 \<and> any_success results
         then (True, record_push report_type s4)
         else (True, s4))"

text \<open>\<open>NewsAnalyzer._send_notification_if_needed\<close>.\<close>

definition send_notification_if_needed ::
  "env \<Rightarrow> stat list \<Rightarrow> string \<Rightarrow> string \<Rightarrow> string list \<Rightarrow> titles_by_source option
     \<Rightarrow> id_to_name \<Rightarrow> string option \<Rightarrow> state \<Rightarrow> bool \<times> state" where
  "send_notification_if_needed env stats report_type mode failed_ids new_titles id_to_name
       html_file_path s =
     (let has_notification = has_notification_configured (cfg env);
          c = cfg env
      in
      if ENABLE_NOTIFICATION c \<and> has_notification
         \<and> has_valid_content (report_mode env) stats new_titles
      then
        (if PUSH_WINDOW_ENABLED c then
           (let time_range_start = PUSH_WINDOW_TIME_RANGE_START c;
                time_range_end = PUSH_WINDOW_TIME_RANGE_END c
            in
            if \<not> is_in_time_range env time_range_start time_range_end then
              (False, emit (Print (OutsidePushWindow time_range_start time_range_end)) s)
            else if PUSH_WINDOW_ONCE_PER_DAY c then
              (if has_pushed_today s then (False, emit (Print AlreadyPushedToday) s)
               else prepare_and_dispatch env report_type mode html_file_path
                      (emit (Print FirstPushToday) s))
            else prepare_and_dispatch env report_type mode html_file_path s)
         else prepare_and_dispatch env report_type mode html_file_path s)
      else if ENABLE_NOTIFICATION c \<and> \<not> has_notification then
        (False, emit (Print WarnNoChannelConfigured) s)
      else if \<not> ENABLE_NOTIFICATION c then
        (False, emit (Print (NotificationDisabled report_type)) s)
      else if ENABLE_NOTIFICATION c \<and> has_notification
              \<and> \<not> has_valid_content (report_mode env) stats new_titles
      then
        (let (mode_strategy, s1) = get_mode_strategy env s
         in
         if contains REALTIME_MARK report_type then
           (if report_mode env = ''incremental'' then
              (let has_new = any_new_titles new_titles
               in if \<not> has_new then (False, emit (Print SkipRealtimeNoNewTitles) s1)
                  else (False, emit (Print SkipRealtimeNewNotMatched) s1))
            else (False, emit (Print (SkipRealtimeNoMatch (mode_name mode_strategy))) s1))
         else
           (False, emit (Print (SkipSummaryNoContent (summary_report_type mode_strategy))) s1))
      else (False, s))"

section \<open>Loading and analysing the day's data\<close>

text \<open>\<open>NewsAnalyzer._load_analysis_data\<close>: \<open>None\<close> when the day's titles cannot be read, are
  empty, or a later collaborator call fails; every exception is caught.\<close>

definition load_analysis_data ::
  "env \<Rightarrow> bool \<Rightarrow> state
     \<Rightarrow> (titles_by_source \<times> id_to_name \<times> title_info \<times> titles_by_source \<times> frequency_words) option
        \<times> state" where
  "load_analysis_data env quiet s =
     (let current_platform_ids = platform_ids env;
          s1 = (if \<not> quiet then emit (Print (MonitoredPlatforms current_platform_ids)) s else s)
      in
      case read_today_titles env current_platform_ids of
        Inl e \<Rightarrow> (None, emit (Print (LoadFailed e)) s1)
      | Inr (all_results, id_to_name, title_info) \<Rightarrow>
          if all_results = [] then (None, emit (Print NoDataToday) s1)
          else
            (let total_titles = sum_list (map (\<lambda>titles. length titles) (map snd all_results));
                 s2 = (if \<not> quiet then emit (Print (TitlesRead total_titles)) s1 else s1)
             in
             case detect_new_titles env current_platform_ids of
               Inl e \<Rightarrow> (None, emit (Print (LoadFailed e)) s2)
             | Inr new_titles \<Rightarrow>
                 (case load_frequency_words env of
                    Inl e \<Rightarrow> (None, emit (Print (LoadFailed e)) s2)
                  | Inr words \<Rightarrow>
                      (Some (all_results, id_to_name, title_info, new_titles, words), s2))))"

text \<open>\<open>NewsAnalyzer._prepare_current_title_info\<close>.\<close>

definition prepare_current_title_info :: "titles_by_source \<Rightarrow> string \<Rightarrow> title_info" where
  "prepare_current_title_info results time_info =
     map (\<lambda>(source_id, titles_data).
            (source_id,
             map (\<lambda>(title, title_data).
                    (title,
                     \<lparr>first_time = time_info,
                      last_time = time_info,
                      seen_count = 1,
                      info_ranks = (case ranks title_data of None \<Rightarrow> [] | Some r \<Rightarrow> r),
                      info_url = (case url title_data of None \<Rightarrow> [] | Some u \<Rightarrow> u),
                      info_mobileUrl = (case mobileUrl title_data of None \<Rightarrow> [] | Some u \<Rightarrow> u)\<rparr>))
                 titles_data))
         results"

text \<open>\<open>NewsAnalyzer._run_analysis_pipeline\<close>: statistics, then the HTML report when that
  format is enabled.\<close>

definition run_analysis_pipeline ::
  "env \<Rightarrow> titles_by_source \<Rightarrow> string \<Rightarrow> title_info \<Rightarrow> titles_by_source \<Rightarrow> frequency_words
     \<Rightarrow> id_to_name \<Rightarrow> string list option \<Rightarrow> bool \<Rightarrow> state \<Rightarrow> (stat list \<times> string option) \<times> state" where
  "run_analysis_pipeline env data_source mode title_info new_titles words id_to_name failed_ids
       is_daily_summary s =
     (let (stats, total_titles) =
            count_frequency env data_source words id_to_name title_info new_titles mode
      in
      if STORAGE_FORMATS_HTML (cfg env) then
        ((stats, Some (generate_html env stats total_titles mode is_daily_summary)),
         emit (GenerateHtml mode is_daily_summary) s)
      else ((stats, None), s))"

text \<open>Truthiness of an optional path (\<open>if html_file:\<close>).\<close>

definition truthy_path :: "string option \<Rightarrow> bool" where
  "truthy_path p = (case p of None \<Rightarrow> False | Some f \<Rightarrow> truthy f)"

definition path_of :: "string option \<Rightarrow> string" where
  "path_of p = (case p of None \<Rightarrow> [] | Some f \<Rightarrow> f)"

definition summary_type_of :: "string \<Rightarrow> string" where
  "summary_type_of mode = (if mode = ''current'' then CURRENT_SUMMARY else DAILY_SUMMARY)"

text \<open>\<open>NewsAnalyzer._generate_summary_report\<close>: the summary with its notification.\<close>

definition generate_summary_report :: "env \<Rightarrow> mode_strategy \<Rightarrow> state \<Rightarrow> string option \<times> state" where
  "generate_summary_report env mode_strategy s =
     (let summary_type = summary_type_of (summary_mode mode_strategy);
          s1 = emit (Print (GeneratingSummaryReport summary_type)) s
      in
      case load_analysis_data env False s1 of
        (None, s2) \<Rightarrow> (None, s2)
      | (Some (all_results, id_to_name, title_info, new_titles, words), s2) \<Rightarrow>
          (let ((stats, html_file), s3) =
                 run_analysis_pipeline env all_results (summary_mode mode_strategy) title_info
                   new_titles words id_to_name None True s2;
               s4 = (if truthy_path html_file
                     then emit (Print (SummaryReportGenerated summary_type (path_of html_file))) s3
                     else s3);
               (sent, s5) =
                 send_notification_if_needed env stats (summary_report_type mode_strategy)
                   (summary_mode mode_strategy) [] (Some new_titles) id_to_name html_file s4
           in (html_file, s5)))"

text \<open>\<open>NewsAnalyzer._generate_summary_html\<close>: the summary artifact alone.\<close>

definition generate_summary_html :: "env \<Rightarrow> string \<Rightarrow> state \<Rightarrow> string option \<times> state" where
  "generate_summary_html env mode s =
     (let summary_type = summary_type_of mode;
          s1 = emit (Print (GeneratingSummaryHtml summary_type)) s
      in
      case load_analysis_data env True s1 of
        (None, s2) \<Rightarrow> (None, s2)
      | (Some (all_results, id_to_name, title_info, new_titles, words), s2) \<Rightarrow>
          (let ((stats, html_file), s3) =
                 run_analysis_pipeline env all_results mode title_info new_titles words
                   id_to_name None True s2;
               s4 = (if truthy_path html_file
                     then emit (Print (SummaryHtmlGenerated summary_type (path_of html_file))) s3
                     else s3)
           in (html_file, s4)))"

section \<open>One cycle\<close>

text \<open>The dictionary display \<open>{**a, **b}\<close>.\<close>

definition dict_merge :: "('k \<times> 'v) list \<Rightarrow> ('k \<times> 'v) list \<Rightarrow> ('k \<times> 'v) list" where
  "dict_merge a b = foldl (\<lambda>m (k, v). AList.update k v m) a b"

text \<open>Lines 867 to 916 of \<open>_execute_mode_strategy\<close>: the realtime step of the current
  mode, over the history read back from the store.  When nothing can be read back the
  method raises \<open>RuntimeError\<close>.\<close>

definition realtime_from_history ::
  "env \<Rightarrow> mode_strategy \<Rightarrow> id_to_name \<Rightarrow> string list \<Rightarrow> frequency_words \<Rightarrow> state
     \<Rightarrow> (error + string option) \<times> state" where
  "realtime_from_history env mode_strategy id_to_name failed_ids words s =
     (case load_analysis_data env False s of
        (Some (all_results, historical_id_to_name, historical_title_info,
               historical_new_titles, _), s1) \<Rightarrow>
          (let s2 = emit (Print (CurrentModeUsesHistory (map fst all_results))) s1;
               ((stats, html_file), s3) =
                 run_analysis_pipeline env all_results (report_mode env) historical_title_info
                   historical_new_titles words historical_id_to_name (Some failed_ids) False s2;
               combined_id_to_name = dict_merge historical_id_to_name id_to_name;
               s4 = (if truthy_path html_file
                     then emit (Print (HtmlGenerated (path_of html_file))) s3 else s3);
               s5 = (if should_send_realtime mode_strategy
                     then snd (send_notification_if_needed env stats
                                 (realtime_report_type mode_strategy) (report_mode env)
                                 failed_ids (Some historical_new_titles) combined_id_to_name
                                 html_file s4)
                     else s4)
           in (Inr html_file, s5))
      | (None, s1) \<Rightarrow> (Inl RuntimeError, emit (Print ConsistencyCheckFailed) s1))"

text \<open>Lines 917 to 944: the realtime step of the other modes, over this cycle's crawl
  results.\<close>

definition realtime_from_crawl ::
  "env \<Rightarrow> mode_strategy \<Rightarrow> titles_by_source \<Rightarrow> id_to_name \<Rightarrow> string list \<Rightarrow> titles_by_source
     \<Rightarrow> string \<Rightarrow> frequency_words \<Rightarrow> state \<Rightarrow> string option \<times> state" where
  "realtime_from_crawl env mode_strategy results id_to_name failed_ids new_titles time_info
       words s =
     (let title_info = prepare_current_title_info results time_info;
          ((stats, html_file), s1) =
            run_analysis_pipeline env results (report_mode env) title_info new_titles words
              id_to_name (Some failed_ids) False s;
          s2 = (if truthy_path html_file
                then emit (Print (HtmlGenerated (path_of html_file))) s1 else s1);
          s3 = (if should_send_realtime mode_strategy
                then snd (send_notification_if_needed env stats
                            (realtime_report_type mode_strategy) (report_mode env) failed_ids
                            (Some new_titles) id_to_name html_file s2)
                else s2)
      in (html_file, s3))"

text \<open>Lines 946 to 956: the summary step.  A strategy with a realtime step gets the
  summary artifact only; otherwise the summary report is generated and sent.\<close>

definition summary_step :: "env \<Rightarrow> mode_strategy \<Rightarrow> state \<Rightarrow> string option \<times> state" where
  "summary_step env mode_strategy s =
     (if should_generate_summary mode_strategy then
        (if should_send_realtime mode_strategy
         then generate_summary_html env (summary_mode mode_strategy) s
         else generate_summary_report env mode_strategy s)
      else (None, s))"

text \<open>Lines 958 to 972: showing the report.  The address opened is \<open>file://\<close> followed by
  the absolute path, \<open>str(Path(html_file).resolve())\<close>, which the file system gives
  (\<open>resolve_path\<close>); in a container the path is printed as it is.\<close>

definition should_open_browser :: "env \<Rightarrow> bool" where
  "should_open_browser env = (\<not> is_github_actions env \<and> \<not> is_docker_container env)"

definition show_report :: "env \<Rightarrow> string option \<Rightarrow> string option \<Rightarrow> state \<Rightarrow> state" where
  "show_report env html_file summary_html s =
     (if should_open_browser env \<and> truthy_path html_file then
        (if truthy_path summary_html
         then (let summary_url = ''file://'' @ resolve_path env (path_of summary_html)
               in emit (OpenBrowser summary_url) (emit (Print (OpeningSummaryReport summary_url)) s))
         else (let file_url = ''file://'' @ resolve_path env (path_of html_file)
               in emit (OpenBrowser file_url) (emit (Print (OpeningHtmlReport file_url)) s)))
      else if is_docker_container env \<and> truthy_path html_file then
        (if truthy_path summary_html
         then emit (Print (SummaryGeneratedDocker (path_of summary_html))) s
         else emit (Print (HtmlGeneratedDocker (path_of html_file))) s)
      else s)"

text \<open>\<open>NewsAnalyzer._execute_mode_strategy\<close>.  \<open>Inl\<close> is an exception leaving the
  method; the state returned with it is the state at the raise.\<close>

definition execute_mode_strategy ::
  "env \<Rightarrow> mode_strategy \<Rightarrow> titles_by_source \<Rightarrow> id_to_name \<Rightarrow> string list \<Rightarrow> state
     \<Rightarrow> (error + string option) \<times> state" where
  "execute_mode_strategy env mode_strategy results id_to_name failed_ids s =
     (let current_platform_ids = platform_ids env
      in
      case detect_new_titles env current_platform_ids of
        Inl e \<Rightarrow> (Inl e, s)
      | Inr new_titles \<Rightarrow>
          (let time_info = format_time env;
               s1 = (if STORAGE_FORMATS_TXT (cfg env) then emit SaveTitles s else s)
           in
           case load_frequency_words env of
             Inl e \<Rightarrow> (Inl e, s1)
           | Inr words \<Rightarrow>
               (case (if report_mode env = ''current''
                      then realtime_from_history env mode_strategy id_to_name failed_ids words s1
                      else (let (html_file, s2) =
                                  realtime_from_crawl env mode_strategy results id_to_name
                                    failed_ids new_titles time_info words s1
                            in (Inr html_file, s2))) of
                  (Inl e, s2) \<Rightarrow> (Inl e, s2)
                | (Inr html_file, s2) \<Rightarrow>
                    (let (summary_html, s3) = summary_step env mode_strategy s2;
                         s4 = show_report env html_file summary_html s3
                     in (Inr summary_html, s4)))))"

section \<open>Crypto price fetcher\<close>

text \<open>The five numbers of a 24-hour ticker.  Python floats are taken as real numbers;
  no property below depends on their arithmetic.\<close>

record ticker =
  price :: real
  change_24h :: real
  volume_24h :: real
  high_24h :: real
  low_24h :: real

definition DEFAULT_SYMBOLS :: "string list" where
  "DEFAULT_SYMBOLS = [''BTCUSDT'', ''ETHUSDT'']"

text \<open>The lines that \<open>fetch_ticker_24h\<close> prints, one constructor per \<open>print\<close> call.\<close>

datatype fetch_message =
    FetchSucceeded string ticker
  | FetchNetworkError string error
  | FetchFormatError string error
  | FetchUnknownError string error

text \<open>The three \<open>except\<close> clauses, in the order of the source, and the line that the
  clause taking the exception prints: \<open>RequestException\<close> first, then
  \<open>(KeyError, ValueError)\<close>, then every other \<open>Exception\<close>.  Every \<open>error\<close> of the model
  is an \<open>Exception\<close>.\<close>

definition failure_line :: "string \<Rightarrow> error \<Rightarrow> fetch_message" where
  "failure_line symbol e =
     (if e = RequestException then FetchNetworkError symbol e
      else if e = KeyError \<or> e = ValueError then FetchFormatError symbol e
      else FetchUnknownError symbol e)"

text \<open>The loop of \<open>fetch_ticker_24h\<close>.  The request of one symbol with its status check,
  JSON decoding and five \<open>float\<close> conversions is the collaborator \<open>request\<close>: it yields
  the ticker or the exception raised.  \<open>print\<close> is a collaborator too: it yields the
  exception that writing the line raised, if any (a \<open>UnicodeEncodeError\<close>, which is a
  \<open>ValueError\<close>, when the output encoding lacks a character of the line; an \<open>OSError\<close>
  when the stream is closed).  Both are given the position in the list, so that two
  rounds for one symbol may differ.

  The line of success is printed inside the \<open>try\<close>, after \<open>results[symbol]\<close> has been
  set: an exception of that \<open>print\<close> is taken by an \<open>except\<close> clause like one of the
  request.  The \<open>print\<close> of an \<open>except\<close> clause stands before the assignment of \<open>None\<close> and
  is not guarded: its exception leaves the method (\<open>Inl\<close>).\<close>

fun fetch_loop ::
  "(nat \<Rightarrow> string \<Rightarrow> error + ticker) \<Rightarrow> (nat \<Rightarrow> fetch_message \<Rightarrow> error option) \<Rightarrow> nat
     \<Rightarrow> string list \<Rightarrow> (string \<times> ticker option) list
     \<Rightarrow> error + (string \<times> ticker option) list" where
  "fetch_loop request print i [] results = Inr results"
| "fetch_loop request print i (symbol # rest) results =
     (case (case request i symbol of
              Inl e \<Rightarrow> (results, Some e)
            | Inr data \<Rightarrow>
                (let results = AList.update symbol (Some data) results
                 in (results, print i (FetchSucceeded symbol data)))) of
        (results, None) \<Rightarrow> fetch_loop request print (Suc i) rest results
      | (results, Some e) \<Rightarrow>
          (case print i (failure_line symbol e) of
             Some e' \<Rightarrow> Inl e'
           | None \<Rightarrow> fetch_loop request print (Suc i) rest (AList.update symbol None results)))"

text \<open>\<open>CryptoFetcher.fetch_ticker_24h\<close>.\<close>

definition fetch_ticker_24h ::
  "(nat \<Rightarrow> string \<Rightarrow> error + ticker) \<Rightarrow> (nat \<Rightarrow> fetch_message \<Rightarrow> error option)
     \<Rightarrow> string list option \<Rightarrow> error + (string \<times> ticker option) list" where
  "fetch_ticker_24h request print symbols =
     (let symbols = (case symbols of None \<Rightarrow> DEFAULT_SYMBOLS | Some l \<Rightarrow> l)
      in fetch_loop request print 0 symbols [])"

text \<open>\<open>s.replace(old, "")\<close> for a non-empty \<open>old\<close>: the occurrences are removed from left
  to right without overlap.\<close>

fun remove_all :: "string \<Rightarrow> string \<Rightarrow> string" where
  "remove_all old [] = []"
| "remove_all old (c # cs) =
     (if old \<noteq> [] \<and> take (length old) (c # cs) = old
      then remove_all old (drop (length old - 1) cs)
      else c # remove_all old cs)"

definition BTC_NAME :: string where
  \<comment> \<open>the display name of Bitcoin (line 140): three Chinese characters, a space, BTC\<close>
  "BTC_NAME =
     [CHR 0xE6, CHR 0xAF, CHR 0x94, CHR 0xE7, CHR 0x89, CHR 0xB9, CHR 0xE5, CHR 0xB8,
      CHR 0x81, CHR 0x20, CHR 0x42, CHR 0x54, CHR 0x43]"

definition ETH_NAME :: string where
  \<comment> \<open>the display name of Ethereum (line 144)\<close>
  "ETH_NAME =
     [CHR 0xE4, CHR 0xBB, CHR 0xA5, CHR 0xE5, CHR 0xA4, CHR 0xAA, CHR 0xE5, CHR 0x9D,
      CHR 0x8A, CHR 0x20, CHR 0x45, CHR 0x54, CHR 0x48]"

definition BNB_NAME :: string where
  \<comment> \<open>the display name of BNB (line 148)\<close>
  "BNB_NAME =
     [CHR 0xE5, CHR 0xB8, CHR 0x81, CHR 0xE5, CHR 0xAE, CHR 0x89, CHR 0xE5, CHR 0xB8,
      CHR 0x81, CHR 0x20, CHR 0x42, CHR 0x4E, CHR 0x42]"

definition EMOJI_UP :: string where
  "EMOJI_UP = [CHR 0xF0, CHR 0x9F, CHR 0x93, CHR 0x88]"

definition EMOJI_DOWN :: string where
  "EMOJI_DOWN = [CHR 0xF0, CHR 0x9F, CHR 0x93, CHR 0x89]"

definition EMOJI_FLAT :: string where
  "EMOJI_FLAT = [CHR 0xE2, CHR 0x9E, CHR 0xA1, CHR 0xEF, CHR 0xB8, CHR 0x8F]"

text \<open>The chain of lines 138 to 155: \<open>(source_id, source_name, short_name)\<close> of a
  symbol.  \<open>str.lower\<close> is a built-in of the interpreter, which lowers every cased
  character of Unicode; it is the parameter \<open>lower\<close>, and nothing is assumed of it.\<close>

definition friendly_names :: "(string \<Rightarrow> string) \<Rightarrow> string \<Rightarrow> string \<times> string \<times> string" where
  "friendly_names lower symbol =
     (if symbol = ''BTCUSDT'' then (''crypto_btc'', BTC_NAME, ''BTC'')
      else if symbol = ''ETHUSDT'' then (''crypto_eth'', ETH_NAME, ''ETH'')
      else if symbol = ''BNBUSDT'' then (''crypto_bnb'', BNB_NAME, ''BNB'')
      else (let base_symbol = remove_all ''USDT'' symbol
            in (''crypto_'' @ lower base_symbol, base_symbol, base_symbol)))"

definition source_id_of :: "(string \<Rightarrow> string) \<Rightarrow> string \<Rightarrow> string" where
  "source_id_of lower symbol = fst (friendly_names lower symbol)"

text \<open>One round of the loop of \<open>convert_to_news_format\<close>.  The rendering of the title
  (an f-string over three floats) is the parameter \<open>render\<close>.\<close>

type_synonym news_format = "titles_by_source \<times> id_to_name \<times> string list"

definition convert_step ::
  "(string \<Rightarrow> string) \<Rightarrow> (string \<Rightarrow> string \<Rightarrow> real \<Rightarrow> real \<Rightarrow> real \<Rightarrow> string) \<Rightarrow> news_format
     \<Rightarrow> string \<times> ticker option \<Rightarrow> news_format" where
  "convert_step lower render acc item =
     (case acc of (results, id_to_name, failed_ids) \<Rightarrow>
      case item of
        (symbol, None) \<Rightarrow> (results, id_to_name, failed_ids @ [symbol])
      | (symbol, Some data) \<Rightarrow>
          (let (source_id, source_name, short_name) = friendly_names lower symbol;
               id_to_name' = AList.update source_id source_name id_to_name;
               change = change_24h data;
               emoji = (if change > 0 then EMOJI_UP
                        else if change < 0 then EMOJI_DOWN else EMOJI_FLAT);
               title = render short_name emoji (price data) change (volume_24h data);
               trade_url = ''https://www.binance.com/zh-CN/trade/'' @ symbol
           in (AList.update source_id
                 [(title, \<lparr>ranks = Some [1], url = Some trade_url, mobileUrl = Some trade_url\<rparr>)]
                 results,
               id_to_name', failed_ids)))"

text \<open>\<open>CryptoFetcher.convert_to_news_format\<close>.  The price map is a dictionary: its keys
  are distinct, and the loop takes them in the order of insertion.\<close>

definition convert_to_news_format ::
  "(string \<Rightarrow> string) \<Rightarrow> (string \<Rightarrow> string \<Rightarrow> real \<Rightarrow> real \<Rightarrow> real \<Rightarrow> string)
     \<Rightarrow> (string \<times> ticker option) list \<Rightarrow> news_format" where
  "convert_to_news_format lower render price_data =
     foldl (convert_step lower render) ([], [], []) price_data"

section \<open>Version check\<close>

text \<open>\<open>str.split(".")\<close>.\<close>

fun split_dot :: "string \<Rightarrow> string list" where
  "split_dot [] = [[]]"
| "split_dot (c # cs) =
     (if c = CHR ''.'' then [] # split_dot cs
      else (case split_dot cs of p # ps \<Rightarrow> (c # p) # ps | [] \<Rightarrow> [[c]]))"

text \<open>The body of the \<open>try\<close> of the nested \<open>parse_version\<close>, and the function itself:
  its bare \<open>except\<close> turns every failure into \<open>(0, 0, 0)\<close>.  \<open>str.strip\<close> and \<open>int\<close> are
  built-ins of the interpreter (\<open>strip\<close> removes the white space of Unicode; \<open>int\<close>
  accepts a sign, the decimal digits of every script, underscores and surrounding white
  space, and refuses a string with more digits than the interpreter's limit); they are
  the parameters \<open>strip\<close> and \<open>py_int\<close>, where \<open>None\<close> is an exception of \<open>int\<close>, and
  nothing is assumed of them.\<close>

definition parse_version_try ::
  "(string \<Rightarrow> string) \<Rightarrow> (string \<Rightarrow> int option) \<Rightarrow> string \<Rightarrow> error + int \<times> int \<times> int" where
  "parse_version_try strip py_int version_str =
     (let parts = split_dot (strip version_str)
      in if length parts \<noteq> 3 then Inl ValueError
         else (case (py_int (parts ! 0), py_int (parts ! 1), py_int (parts ! 2)) of
                 (Some a, Some b, Some c) \<Rightarrow> Inr (a, b, c)
               | _ \<Rightarrow> Inl ValueError))"

definition parse_version ::
  "(string \<Rightarrow> string) \<Rightarrow> (string \<Rightarrow> int option) \<Rightarrow> string \<Rightarrow> int \<times> int \<times> int" where
  "parse_version strip py_int version_str =
     (case parse_version_try strip py_int version_str of Inl e \<Rightarrow> (0, 0, 0) | Inr t \<Rightarrow> t)"

text \<open>Python's \<open><\<close> on triples of integers.\<close>

fun tuple_less :: "int \<times> int \<times> int \<Rightarrow> int \<times> int \<times> int \<Rightarrow> bool" where
  "tuple_less (a1, b1, c1) (a2, b2, c2) =
     (a1 < a2 \<or> (a1 = a2 \<and> (b1 < b2 \<or> (b1 = b2 \<and> c1 < c2))))"

text \<open>The two lines that \<open>check_version_update\<close> prints: the versions (line 44) and the
  failure (line 63).\<close>

datatype version_message =
    VersionsFound string string
  | VersionCheckFailed error

text \<open>\<open>check_version_update\<close>.  The request with its status check is the collaborator
  \<open>http_get\<close>, which yields the response text or the exception raised; \<open>print\<close> yields
  the exception that writing the line raised, if any.  Line 44 prints inside the \<open>try\<close>,
  so its exception reaches the handler like one of the request.  The handler's own
  \<open>print\<close> (line 63) is not guarded: its exception leaves the function (\<open>Inl\<close>).\<close>

definition proxies_of :: "string option \<Rightarrow> string option" where
  \<comment> \<open>lines 28 to 30: the proxy is used when \<open>proxy_url\<close> is truthy\<close>
  "proxies_of proxy_url =
     (case proxy_url of None \<Rightarrow> None | Some p \<Rightarrow> if truthy p then Some p else None)"

definition check_version_update ::
  "(string \<Rightarrow> string option \<Rightarrow> error + string) \<Rightarrow> (version_message \<Rightarrow> error option)
     \<Rightarrow> (string \<Rightarrow> string) \<Rightarrow> (string \<Rightarrow> int option) \<Rightarrow> string \<Rightarrow> string \<Rightarrow> string option
     \<Rightarrow> error + bool \<times> string option" where
  "check_version_update http_get print strip py_int current_version version_url proxy_url =
     (case (let proxies = proxies_of proxy_url
            in case http_get version_url proxies of
                 Inl e \<Rightarrow> Inl e
               | Inr text \<Rightarrow>
                   (let remote_version = strip text
                    in case print (VersionsFound current_version remote_version) of
                         Some e \<Rightarrow> Inl e
                       | None \<Rightarrow>
                           (let current_tuple = parse_version strip py_int current_version;
                                remote_tuple = parse_version strip py_int remote_version;
                                need_update = tuple_less current_tuple remote_tuple
                            in Inr (need_update,
                                    if need_update then Some remote_version else None)))) of
        Inl e \<Rightarrow>
          (case print (VersionCheckFailed e) of
             Some e' \<Rightarrow> Inl e'
           | None \<Rightarrow> Inr (False, None))
      | Inr r \<Rightarrow> Inr r)"

section \<open>Observations on a trace\<close>

text \<open>The push trace of a state keeps the calls of the dispatcher and the writes of the
  push record, in order; \<open>recorded\<close> and \<open>printed\<close> are the report types written to the
  push record and the lines printed.\<close>

fun push_event :: "event \<Rightarrow> bool" where
  "push_event (Dispatch report_type mode html) = True"
| "push_event (RecordPush report_type) = True"
| "push_event _ = False"

fun record_of :: "event \<Rightarrow> string option" where
  "record_of (RecordPush report_type) = Some report_type"
| "record_of _ = None"

fun print_of :: "event \<Rightarrow> message option" where
  "print_of (Print m) = Some m"
| "print_of _ = None"

definition push_trace :: "state \<Rightarrow> event list" where
  "push_trace s = filter push_event (events s)"

definition recorded :: "state \<Rightarrow> string list" where
  "recorded s = List.map_filter record_of (events s)"

definition printed :: "state \<Rightarrow> message list" where
  "printed s = List.map_filter print_of (events s)"

text \<open>Neither a dispatch nor a write of the push record happens between two states.\<close>

definition no_attempt :: "state \<Rightarrow> state \<Rightarrow> bool" where
  "no_attempt s s' = (push_trace s' = push_trace s \<and> push_records s' = push_records s)"

definition state0 :: state where
  "state0 = \<lparr>events = [], push_records = []\<rparr>"

section \<open>The specification's words\<close>

text \<open>The two signals of the truth table of the content gate.\<close>

definition has_matched :: "stat list \<Rightarrow> bool" where
  "has_matched stats = (\<exists>s \<in> set stats. count s > 0)"

definition has_new :: "titles_by_source option \<Rightarrow> bool" where
  "has_new new_titles =
     (\<exists>d. new_titles = Some d \<and> (\<exists>src titles. (src, titles) \<in> set d \<and> titles \<noteq> []))"

text \<open>At least one channel of a dispatch outcome reports success.\<close>

definition succeeded :: "(string \<times> bool) list \<Rightarrow> bool" where
  "succeeded results = (\<exists>channel. (channel, True) \<in> set results)"

text \<open>The throttle: with the push window disabled every push may go out; otherwise the
  time must be inside the window and, under the once-per-day rule, nothing may have
  been pushed today.\<close>

definition window_allows :: "env \<Rightarrow> state \<Rightarrow> bool" where
  "window_allows env s =
     (if PUSH_WINDOW_ENABLED (cfg env) then
        is_in_time_range env (PUSH_WINDOW_TIME_RANGE_START (cfg env))
          (PUSH_WINDOW_TIME_RANGE_END (cfg env))
        \<and> (if PUSH_WINDOW_ONCE_PER_DAY (cfg env) then \<not> has_pushed_today s else True)
      else True)"

definition can_push :: "env \<Rightarrow> state \<Rightarrow> bool" where
  "can_push env s =
     (ENABLE_NOTIFICATION (cfg env) \<and> has_notification_configured (cfg env)
      \<and> window_allows env s)"

text \<open>Gate, then throttle.\<close>

definition may_push :: "env \<Rightarrow> stat list \<Rightarrow> titles_by_source option \<Rightarrow> state \<Rightarrow> bool" where
  "may_push env stats new_titles s =
     (has_valid_content (report_mode env) stats new_titles \<and> can_push env s)"

text \<open>Dispatch, then record: the push is recorded when the window and its once-per-day
  rule are enabled and a channel succeeded.\<close>

definition records_push :: "env \<Rightarrow> string \<Rightarrow> string \<Rightarrow> string option \<Rightarrow> bool" where
  "records_push env report_type mode html =
     (PUSH_WINDOW_ENABLED (cfg env) \<and> PUSH_WINDOW_ONCE_PER_DAY (cfg env)
      \<and> any_success (dispatch_all env report_type mode html))"

definition attempt :: "env \<Rightarrow> string \<Rightarrow> string \<Rightarrow> string option \<Rightarrow> event list" where
  "attempt env report_type mode html =
     Dispatch report_type mode html
       # (if records_push env report_type mode html then [RecordPush report_type] else [])"

text \<open>The values computed by the loading step and by the analysis pipeline; they do not
  depend on the state.\<close>

definition loaded ::
  "env \<Rightarrow> (titles_by_source \<times> id_to_name \<times> title_info \<times> titles_by_source \<times> frequency_words) option" where
  "loaded env = fst (load_analysis_data env True state0)"

definition analysed ::
  "env \<Rightarrow> titles_by_source \<Rightarrow> string \<Rightarrow> title_info \<Rightarrow> titles_by_source \<Rightarrow> frequency_words
     \<Rightarrow> id_to_name \<Rightarrow> bool \<Rightarrow> stat list \<times> string option" where
  "analysed env data_source mode title_info new_titles words id_to_name is_daily_summary =
     fst (run_analysis_pipeline env data_source mode title_info new_titles words id_to_name
            None is_daily_summary state0)"

text \<open>The sequence gate, throttle, dispatch, record of the realtime step, over given
  statistics, and of the summary step, over the day's data in the summary mode and with
  the summary report type.\<close>

definition realtime_push ::
  "env \<Rightarrow> mode_strategy \<Rightarrow> stat list \<Rightarrow> titles_by_source \<Rightarrow> string option \<Rightarrow> state \<Rightarrow> event list" where
  "realtime_push env mode_strategy stats new_titles html_file s =
     (if should_send_realtime mode_strategy \<and> may_push env stats (Some new_titles) s
      then attempt env (realtime_report_type mode_strategy) (report_mode env) html_file
      else [])"

definition summary_push :: "env \<Rightarrow> mode_strategy \<Rightarrow> state \<Rightarrow> event list" where
  "summary_push env mode_strategy s =
     (case loaded env of
        None \<Rightarrow> []
      | Some (all_results, id_to_name, title_info, new_titles, words) \<Rightarrow>
          (let (stats, html_file) =
                 analysed env all_results (summary_mode mode_strategy) title_info new_titles
                   words id_to_name True
           in if may_push env stats (Some new_titles) s
              then attempt env (summary_report_type mode_strategy) (summary_mode mode_strategy)
                     html_file
              else []))"

text \<open>The push trace of a whole cycle.\<close>

definition cycle_push ::
  "env \<Rightarrow> mode_strategy \<Rightarrow> titles_by_source \<Rightarrow> id_to_name \<Rightarrow> state \<Rightarrow> event list" where
  "cycle_push env mode_strategy results id_to_name s =
     (case detect_new_titles env (platform_ids env) of
        Inl e \<Rightarrow> []
      | Inr new_titles \<Rightarrow>
          (case load_frequency_words env of
             Inl e \<Rightarrow> []
           | Inr words \<Rightarrow>
               if report_mode env = ''current'' then
                 (case loaded env of
                    None \<Rightarrow> []
                  | Some (all_results, hidn, hti, hnt, hw) \<Rightarrow>
                      if should_send_realtime mode_strategy then
                        (let (stats, html_file) =
                               analysed env all_results (report_mode env) hti hnt words hidn False
                         in realtime_push env mode_strategy stats hnt html_file s)
                      else if should_generate_summary mode_strategy
                      then summary_push env mode_strategy s
                      else [])
               else if should_send_realtime mode_strategy then
                 (let (stats, html_file) =
                        analysed env results (report_mode env)
                          (prepare_current_title_info results (format_time env))
                          new_titles words id_to_name False
                  in realtime_push env mode_strategy stats new_titles html_file s)
               else if should_generate_summary mode_strategy
               then summary_push env mode_strategy s
               else []))"

text \<open>The report type of the one path of a strategy that sends.\<close>

definition path_report_type :: "mode_strategy \<Rightarrow> string" where
  "path_report_type mode_strategy =
     (if should_send_realtime mode_strategy then realtime_report_type mode_strategy
      else summary_report_type mode_strategy)"

text \<open>The crypto fetcher.  The exception that reaches the \<open>except\<close> clauses in the round
  of a symbol, if any (of the request, or of printing the line of success); whether
  the clause then prints its line without an exception; what the symbol is mapped to
  once the round is over; the list actually requested; and the symbols of a price map
  with and without data.\<close>

definition failure ::
  "(nat \<Rightarrow> string \<Rightarrow> error + ticker) \<Rightarrow> (nat \<Rightarrow> fetch_message \<Rightarrow> error option) \<Rightarrow> nat \<Rightarrow> string
     \<Rightarrow> error option" where
  "failure request print i symbol =
     (case request i symbol of
        Inl e \<Rightarrow> Some e
      | Inr data \<Rightarrow> print i (FetchSucceeded symbol data))"

definition reported ::
  "(nat \<Rightarrow> string \<Rightarrow> error + ticker) \<Rightarrow> (nat \<Rightarrow> fetch_message \<Rightarrow> error option) \<Rightarrow> nat \<Rightarrow> string
     \<Rightarrow> bool" where
  "reported request print i symbol =
     (case failure request print i symbol of
        None \<Rightarrow> True
      | Some e \<Rightarrow> print i (failure_line symbol e) = None)"

definition outcome ::
  "(nat \<Rightarrow> string \<Rightarrow> error + ticker) \<Rightarrow> (nat \<Rightarrow> fetch_message \<Rightarrow> error option) \<Rightarrow> nat \<Rightarrow> string
     \<Rightarrow> ticker option" where
  "outcome request print i symbol =
     (case request i symbol of
        Inl e \<Rightarrow> None
      | Inr data \<Rightarrow>
          (case print i (FetchSucceeded symbol data) of None \<Rightarrow> Some data | Some e \<Rightarrow> None))"

definition requested :: "string list option \<Rightarrow> string list" where
  "requested symbols = (case symbols of None \<Rightarrow> DEFAULT_SYMBOLS | Some l \<Rightarrow> l)"

definition with_data :: "(string \<times> ticker option) list \<Rightarrow> string list" where
  "with_data price_data = map fst (filter (\<lambda>p. snd p \<noteq> None) price_data)"

definition without_data :: "(string \<times> ticker option) list \<Rightarrow> string list" where
  "without_data price_data = map fst (filter (\<lambda>p. snd p = None) price_data)"

definition singletons :: "titles_by_source \<Rightarrow> bool" where
  "singletons res = list_all (\<lambda>p. length (snd p) = 1) res"

section \<open>Example inputs\<close>

definition example_titles :: titles_by_source where
  "example_titles =
     [(''weibo'',
       [(''AI chips'',
         \<lparr>ranks = Some [1], url = Some ''https://weibo.com/1'', mobileUrl = None\<rparr>)])]"

definition example_cfg :: config where
  "example_cfg =
     \<lparr>ENABLE_NOTIFICATION = True,
      FEISHU_WEBHOOK_URL = ''https://open.feishu.cn/hook/1'',
      DINGTALK_WEBHOOK_URL = [],
      WEWORK_WEBHOOK_URL = [],
      TELEGRAM_BOT_TOKEN = [],
      TELEGRAM_CHAT_ID = [],
      EMAIL_FROM = [],
      EMAIL_PASSWORD = [],
      EMAIL_TO = [],
      NTFY_SERVER_URL = [],
      NTFY_TOPIC = [],
      BARK_URL = [],
      SLACK_WEBHOOK_URL = [],
      PUSH_WINDOW_ENABLED = True,
      PUSH_WINDOW_ONCE_PER_DAY = True,
      PUSH_WINDOW_TIME_RANGE_START = ''08:00'',
      PUSH_WINDOW_TIME_RANGE_END = ''22:00'',
      STORAGE_FORMATS_HTML = True,
      STORAGE_FORMATS_TXT = False\<rparr>"

text \<open>A daily-mode environment inside the push window with one working channel.  The
  classifier finds one match over the day (modes \<open>daily\<close> and \<open>current\<close>) and none among
  the titles of the cycle alone (mode \<open>incremental\<close>).\<close>

definition example_env :: env where
  "example_env =
     \<lparr>cfg = example_cfg,
      report_mode = ''daily'',
      is_github_actions = True,
      is_docker_container = False,
      platform_ids = [''weibo''],
      format_time = ''09:30'',
      is_in_time_range = (\<lambda>start end. True),
      dispatch_all = (\<lambda>report_type mode html. [(''feishu'', True)]),
      read_today_titles = (\<lambda>ids. Inr (example_titles, [(''weibo'', ''Weibo'')], [])),
      detect_new_titles = (\<lambda>ids. Inr example_titles),
      load_frequency_words = Inr ([[''AI'']], [], []),
      count_frequency =
        (\<lambda>data words id_to_name title_info new_titles mode.
           if mode = ''incremental'' then ([\<lparr>word = ''AI'', count = 0\<rparr>], 1)
           else ([\<lparr>word = ''AI'', count = 1\<rparr>], 1)),
      generate_html = (\<lambda>stats total mode is_daily_summary. ''output/index.html''),
      resolve_path = (\<lambda>p. ''/srv/trendradar/'' @ p)\<rparr>"

definition incremental_env :: env where
  "incremental_env = example_env\<lparr>report_mode := ''incremental''\<rparr>"

text \<open>An incremental-mode environment in which a new title of the cycle matches.\<close>

definition matching_env :: env where
  "matching_env =
     incremental_env\<lparr>count_frequency :=
       (\<lambda>data words id_to_name title_info new_titles mode. ([\<lparr>word = ''AI'', count = 1\<rparr>], 1))\<rparr>"

definition weekly_env :: env where
  "weekly_env = example_env\<lparr>report_mode := ''weekly''\<rparr>"

definition unreadable_env :: env where
  "unreadable_env =
     example_env\<lparr>report_mode := ''current'', read_today_titles := (\<lambda>ids. Inr ([], [], []))\<rparr>"

definition failing_env :: env where
  "failing_env = example_env\<lparr>dispatch_all := (\<lambda>report_type mode html. [(''feishu'', False)])\<rparr>"

definition window_off_env :: env where
  "window_off_env = example_env\<lparr>cfg := example_cfg\<lparr>PUSH_WINDOW_ENABLED := False\<rparr>\<rparr>"

definition every_push_env :: env where
  "every_push_env = example_env\<lparr>cfg := example_cfg\<lparr>PUSH_WINDOW_ONCE_PER_DAY := False\<rparr>\<rparr>"

definition no_channel_env :: env where
  "no_channel_env =
     example_env\<lparr>cfg := example_cfg\<lparr>FEISHU_WEBHOOK_URL := [],
                                     TELEGRAM_BOT_TOKEN := ''123:abc''\<rparr>\<rparr>"

definition current_env :: env where
  "current_env = example_env\<lparr>report_mode := ''current''\<rparr>"

definition pushed_state :: state where
  "pushed_state = \<lparr>events = [], push_records = [DAILY_SUMMARY]\<rparr>"

definition example_stats :: "stat list" where
  "example_stats = [\<lparr>word = ''AI'', count = 1\<rparr>]"

definition example_ticker :: ticker where
  "example_ticker =
     \<lparr>price = 50000, change_24h = 2.5, volume_24h = 1000000, high_24h = 51000,
      low_24h = 49000\<rparr>"

text \<open>An interpreter for the examples.  On an ASCII string \<open>str.lower\<close> changes the
  letters \<open>A\<close> to \<open>Z\<close> alone, \<open>str.strip\<close> removes the characters 9 to 13 and 28 to 32 at
  both ends, and \<open>int\<close> reads, between white space, an optional sign and decimal digits
  with single underscores between them.  The strings of the examples are ASCII and
  have a few digits.\<close>

definition lower_char :: "char \<Rightarrow> char" where
  "lower_char c =
     (case map_of (zip ''ABCDEFGHIJKLMNOPQRSTUVWXYZ'' ''abcdefghijklmnopqrstuvwxyz'') c of
        Some l \<Rightarrow> l
      | None \<Rightarrow> c)"

definition ascii_lower :: "string \<Rightarrow> string" where
  "ascii_lower s = map lower_char s"

definition is_space :: "char \<Rightarrow> bool" where
  "is_space c = (let n = (of_char c :: nat) in (9 \<le> n \<and> n \<le> 13) \<or> (28 \<le> n \<and> n \<le> 32))"

definition ascii_strip :: "string \<Rightarrow> string" where
  "ascii_strip s = rev (dropWhile is_space (rev (dropWhile is_space s)))"

definition is_digit :: "char \<Rightarrow> bool" where
  "is_digit c = (48 \<le> (of_char c :: nat) \<and> (of_char c :: nat) \<le> 57)"

fun digits_ok :: "string \<Rightarrow> bool" where
  "digits_ok [] = False"
| "digits_ok [c] = is_digit c"
| "digits_ok (c # d # cs) =
     (is_digit c \<and> (if d = CHR ''_'' then digits_ok cs else digits_ok (d # cs)))"

definition digits_value :: "string \<Rightarrow> int" where
  "digits_value ds =
     foldl (\<lambda>acc c. 10 * acc + (int (of_char c) - 48)) 0 (filter (\<lambda>c. c \<noteq> CHR ''_'') ds)"

definition ascii_int :: "string \<Rightarrow> int option" where
  "ascii_int s =
     (case ascii_strip s of
        [] \<Rightarrow> None
      | c # cs \<Rightarrow>
          if c = CHR ''-'' then (if digits_ok cs then Some (- digits_value cs) else None)
          else if c = CHR ''+'' then (if digits_ok cs then Some (digits_value cs) else None)
          else (if digits_ok (c # cs) then Some (digits_value (c # cs)) else None))"

text \<open>A request that fails for every symbol but \<open>USDTDAI\<close> and \<open>BTCUSDT\<close>, a price
  map in which the symbols \<open>DAIUSDT\<close> and \<open>USDTDAI\<close> share the source id \<open>crypto_dai\<close>,
  and one without such symbols.\<close>

definition example_request :: "nat \<Rightarrow> string \<Rightarrow> error + ticker" where
  "example_request i symbol =
     (if symbol = ''USDTDAI'' \<or> symbol = ''BTCUSDT'' then Inr example_ticker
      else Inl RequestException)"

definition colliding_prices :: "(string \<times> ticker option) list" where
  "colliding_prices = [(''DAIUSDT'', None), (''USDTDAI'', Some example_ticker)]"

definition example_prices :: "(string \<times> ticker option) list" where
  "example_prices = [(''BTCUSDT'', Some example_ticker), (''DOGEUSDT'', None)]"

text \<open>Two standard outputs: one that takes every line, and one whose encoding is ASCII.
  Every line of \<open>fetch_ticker_24h\<close> has a check mark or a cross and every line of
  \<open>check_version_update\<close> has Chinese characters, so on the second every \<open>print\<close> raises
  \<open>UnicodeEncodeError\<close>, a \<open>ValueError\<close>.\<close>

definition utf8_output :: "nat \<Rightarrow> fetch_message \<Rightarrow> error option" where
  "utf8_output i line = None"

definition ascii_output :: "nat \<Rightarrow> fetch_message \<Rightarrow> error option" where
  "ascii_output i line = Some ValueError"

definition utf8_terminal :: "version_message \<Rightarrow> error option" where
  "utf8_terminal line = None"

definition ascii_terminal :: "version_message \<Rightarrow> error option" where
  "ascii_terminal line = Some ValueError"

text \<open>A version server that answers with a newer version at one address, with a page
  that is no version at another, and fails otherwise.\<close>

definition example_http :: "string \<Rightarrow> string option \<Rightarrow> error + string" where
  "example_http version_url proxies =
     (if version_url = ''https://example.org/version'' then Inr ''4.1.0''
      else if version_url = ''https://example.org/page'' then Inr ''not a version''
      else Inl RequestException)"

definition example_render :: "string \<Rightarrow> string \<Rightarrow> real \<Rightarrow> real \<Rightarrow> real \<Rightarrow> string" where
  "example_render short_name emoji p change volume = short_name @ '' '' @ emoji"

section \<open>Properties\<close>

subsection \<open>The content gate\<close>

lemma any_new_titles_iff: "any_new_titles nt = has_new nt"
proof (cases nt)
  case None
  then show ?thesis by (simp add: any_new_titles_def has_new_def)
next
  case (Some d)
  have "list_ex (\<lambda>titles. length titles > 0) (map snd d) =
        (\<exists>src titles. (src, titles) \<in> set d \<and> titles \<noteq> [])"
    by (force simp: list_ex_iff)
  moreover have "(\<exists>src titles. (src, titles) \<in> set d \<and> titles \<noteq> []) \<Longrightarrow> d \<noteq> []"
    by auto
  ultimately show ?thesis using Some
    by (auto simp: any_new_titles_def has_new_def)
qed

lemma list_ex_count_iff: "list_ex (\<lambda>stat. count stat > 0) stats = has_matched stats"
  by (simp add: list_ex_iff has_matched_def)

text \<open>
  C1. The content-validity gate follows the truth table: in incremental mode it holds iff
  some source has a new title and some statistic has a positive count; in current mode iff
  some statistic has a positive count; in daily mode iff some statistic has a positive
  count or some source has a new title.
\<close>

theorem has_valid_content_truth_table:
  "has_valid_content ''incremental'' stats new_titles = (has_new new_titles \<and> has_matched stats)
   \<and> has_valid_content ''current'' stats new_titles = has_matched stats
   \<and> has_valid_content ''daily'' stats new_titles = (has_matched stats \<or> has_new new_titles)"
  by (simp add: has_valid_content_def any_new_titles_iff list_ex_count_iff)

subsection \<open>Traces of the steps of a cycle\<close>

lemma map_filter_append [simp]:
  "List.map_filter f (xs @ ys) = List.map_filter f xs @ List.map_filter f ys"
  by (simp add: List.map_filter_def)

lemma push_trace_emit [simp]:
  "push_trace (emit e s) = push_trace s @ (if push_event e then [e] else [])"
  by (simp add: push_trace_def emit_def)

lemma push_records_emit [simp]: "push_records (emit e s) = push_records s"
  by (simp add: emit_def)

lemma has_pushed_today_emit [simp]: "has_pushed_today (emit e s) = has_pushed_today s"
  by (simp add: has_pushed_today_def)

lemma push_trace_push_records_update [simp]:
  "push_trace (s\<lparr>push_records := r\<rparr>) = push_trace s"
  by (simp add: push_trace_def)

lemma recorded_push_trace: "recorded s = List.map_filter record_of (push_trace s)"
proof -
  have "List.map_filter record_of (filter push_event xs) = List.map_filter record_of xs" for xs
  proof (induction xs)
    case Nil
    then show ?case by simp
  next
    case (Cons e xs)
    then show ?case by (cases e) simp_all
  qed
  then show ?thesis by (simp add: recorded_def push_trace_def)
qed

lemma any_success_iff: "any_success results = succeeded results"
  by (force simp: any_success_def succeeded_def list_ex_iff)

lemma any_success_nonempty: "any_success results \<Longrightarrow> results \<noteq> []"
  by (auto simp: any_success_def)

lemma record_of_attempt [simp]:
  "List.map_filter record_of (attempt env rt mode html) =
     (if records_push env rt mode html then [rt] else [])"
  by (simp add: attempt_def)

lemma attempt_cases:
  "attempt env rt mode html =
     (if PUSH_WINDOW_ENABLED (cfg env) \<and> PUSH_WINDOW_ONCE_PER_DAY (cfg env)
         \<and> succeeded (dispatch_all env rt mode html)
      then [Dispatch rt mode html, RecordPush rt] else [Dispatch rt mode html])"
  by (simp add: attempt_def records_push_def any_success_iff)

lemma prepare_and_dispatch_trace:
  "push_trace (snd (prepare_and_dispatch env rt mode html s)) =
     push_trace s @ attempt env rt mode html"
  "push_records (snd (prepare_and_dispatch env rt mode html s)) =
     push_records s @ (if records_push env rt mode html then [rt] else [])"
  "fst (prepare_and_dispatch env rt mode html s) = (dispatch_all env rt mode html \<noteq> [])"
  using any_success_nonempty[of "dispatch_all env rt mode html"]
  by (auto simp: prepare_and_dispatch_def Let_def attempt_def records_push_def record_push_def)

lemma get_mode_strategy_state [simp]: "snd (get_mode_strategy env s) = s"
  by (simp add: get_mode_strategy_def split: option.splits)

lemma send_trace:
  "push_trace (snd (send_notification_if_needed env stats rt mode fids nt idn html s)) =
     push_trace s @ (if may_push env stats nt s then attempt env rt mode html else [])"
  "push_records (snd (send_notification_if_needed env stats rt mode fids nt idn html s)) =
     push_records s @ (if may_push env stats nt s \<and> records_push env rt mode html then [rt] else [])"
  "fst (send_notification_if_needed env stats rt mode fids nt idn html s) =
     (may_push env stats nt s \<and> dispatch_all env rt mode html \<noteq> [])"
  by (auto simp: send_notification_if_needed_def Let_def may_push_def can_push_def
      window_allows_def prepare_and_dispatch_trace case_prod_beta)

lemma push_records_send:
  "push_records (snd (send_notification_if_needed env stats rt mode fids nt idn html s)) =
     push_records s
       @ List.map_filter record_of (if may_push env stats nt s then attempt env rt mode html else [])"
  by (simp add: send_trace)

lemma can_push_cong: "push_records s1 = push_records s \<Longrightarrow> can_push env s1 = can_push env s"
  by (simp add: can_push_def window_allows_def has_pushed_today_def)

lemma may_push_cong:
  "push_records s1 = push_records s \<Longrightarrow> may_push env st nt s1 = may_push env st nt s"
  using can_push_cong[of s1 s env] by (simp add: may_push_def)

lemma may_push_emit [simp]: "may_push env st nt (emit e s) = may_push env st nt s"
  by (rule may_push_cong) simp

lemma load_analysis_data_fst [simp]: "fst (load_analysis_data env quiet s) = loaded env"
  by (simp add: loaded_def load_analysis_data_def Let_def split: sum.splits prod.splits)

lemma load_analysis_data_push [simp]:
  "push_trace (snd (load_analysis_data env quiet s)) = push_trace s"
  "push_records (snd (load_analysis_data env quiet s)) = push_records s"
  by (simp_all add: load_analysis_data_def Let_def split: sum.splits prod.splits)

lemma run_analysis_pipeline_fst [simp]:
  "fst (run_analysis_pipeline env d m ti nt w idn fids ds s) = analysed env d m ti nt w idn ds"
  by (simp add: analysed_def run_analysis_pipeline_def Let_def split: prod.splits)

lemma run_analysis_pipeline_push [simp]:
  "push_trace (snd (run_analysis_pipeline env d m ti nt w idn fids ds s)) = push_trace s"
  "push_records (snd (run_analysis_pipeline env d m ti nt w idn fids ds s)) = push_records s"
  by (simp_all add: run_analysis_pipeline_def Let_def split: prod.splits)

lemma may_push_load [simp]:
  "may_push env st nt (snd (load_analysis_data env quiet s)) = may_push env st nt s"
  by (rule may_push_cong) simp

lemma may_push_run [simp]:
  "may_push env st nt (snd (run_analysis_pipeline env d m ti nt' w idn fids ds s)) =
   may_push env st nt s"
  by (rule may_push_cong) simp

lemma generate_summary_html_push [simp]:
  "push_trace (snd (generate_summary_html env mode s)) = push_trace s"
  "push_records (snd (generate_summary_html env mode s)) = push_records s"
  by (simp_all add: generate_summary_html_def Let_def case_prod_beta split: option.splits)

lemma show_report_push [simp]:
  "push_trace (show_report env h sh s) = push_trace s"
  "push_records (show_report env h sh s) = push_records s"
  by (simp_all add: show_report_def Let_def)

lemma generate_summary_report_trace:
  "push_trace (snd (generate_summary_report env ms s)) = push_trace s @ summary_push env ms s"
  by (simp add: generate_summary_report_def summary_push_def Let_def case_prod_beta send_trace
      split: option.splits)

lemma generate_summary_report_records:
  "push_records (snd (generate_summary_report env ms s)) =
     push_records s @ List.map_filter record_of (summary_push env ms s)"
  by (simp add: generate_summary_report_def summary_push_def Let_def case_prod_beta
      push_records_send split: option.splits)

lemma realtime_from_crawl_trace:
  "push_trace (snd (realtime_from_crawl env ms results idn fids nt ti w s)) =
     push_trace s
       @ (let (stats, html_file) =
                analysed env results (report_mode env) (prepare_current_title_info results ti)
                  nt w idn False
          in realtime_push env ms stats nt html_file s)"
  "push_records (snd (realtime_from_crawl env ms results idn fids nt ti w s)) =
     push_records s
       @ List.map_filter record_of
           (let (stats, html_file) =
                analysed env results (report_mode env) (prepare_current_title_info results ti)
                  nt w idn False
            in realtime_push env ms stats nt html_file s)"
  by (simp_all add: realtime_from_crawl_def realtime_push_def Let_def case_prod_beta send_trace
      push_records_send)

lemma realtime_from_history_trace:
  "push_trace (snd (realtime_from_history env ms idn fids w s)) =
     push_trace s
       @ (case loaded env of
            None \<Rightarrow> []
          | Some (all_results, hidn, hti, hnt, hw) \<Rightarrow>
              (let (stats, html_file) =
                     analysed env all_results (report_mode env) hti hnt w hidn False
               in realtime_push env ms stats hnt html_file s))"
  "push_records (snd (realtime_from_history env ms idn fids w s)) =
     push_records s
       @ List.map_filter record_of
          (case loaded env of
            None \<Rightarrow> []
          | Some (all_results, hidn, hti, hnt, hw) \<Rightarrow>
              (let (stats, html_file) =
                     analysed env all_results (report_mode env) hti hnt w hidn False
               in realtime_push env ms stats hnt html_file s))"
  by (simp_all add: realtime_from_history_def realtime_push_def Let_def case_prod_beta send_trace
      push_records_send split: option.splits)

lemma realtime_from_history_None:
  assumes "loaded env = None"
  shows "realtime_from_history env ms idn fids w s =
           (Inl RuntimeError,
            emit (Print ConsistencyCheckFailed) (snd (load_analysis_data env False s)))"
proof -
  obtain r s1 where l: "load_analysis_data env False s = (r, s1)" by force
  have "r = None" using load_analysis_data_fst[of env False s] l assms by simp
  then show ?thesis using l by (simp add: realtime_from_history_def)
qed

lemma realtime_from_history_Some:
  assumes "loaded env = Some (all_results, hidn, hti, hnt, hw)"
  shows "fst (realtime_from_history env ms idn fids w s) =
           Inr (snd (analysed env all_results (report_mode env) hti hnt w hidn False))"
proof -
  obtain r s1 where l: "load_analysis_data env False s = (r, s1)" by force
  have "r = Some (all_results, hidn, hti, hnt, hw)"
    using load_analysis_data_fst[of env False s] l assms by simp
  then show ?thesis using l by (simp add: realtime_from_history_def Let_def case_prod_beta)
qed

lemma summary_push_cong:
  "push_records s1 = push_records s \<Longrightarrow> summary_push env ms s1 = summary_push env ms s"
  using may_push_cong[of s1 s env]
  by (simp add: summary_push_def Let_def case_prod_beta split: option.splits)

lemma realtime_push_emit [simp]:
  "realtime_push env ms st nt h (emit e s) = realtime_push env ms st nt h s"
  by (simp add: realtime_push_def)

lemma realtime_push_off [simp]:
  "\<not> should_send_realtime ms \<Longrightarrow> realtime_push env ms st nt h s = []"
  by (simp add: realtime_push_def)

lemma summary_push_emit [simp]: "summary_push env ms (emit e s) = summary_push env ms s"
  by (rule summary_push_cong) simp

lemma summary_push_after_crawl [simp]:
  "\<not> should_send_realtime ms \<Longrightarrow>
   summary_push env ms (snd (realtime_from_crawl env ms results idn fids nt ti w s)) =
   summary_push env ms s"
  by (rule summary_push_cong) (simp add: realtime_from_crawl_trace case_prod_beta)

lemma summary_push_after_history [simp]:
  "\<not> should_send_realtime ms \<Longrightarrow>
   summary_push env ms (snd (realtime_from_history env ms idn fids w s)) =
   summary_push env ms s"
  by (rule summary_push_cong)
     (simp add: realtime_from_history_trace case_prod_beta split: option.splits)

lemma summary_step_trace:
  "push_trace (snd (summary_step env ms s)) =
     push_trace s @ (if \<not> should_send_realtime ms \<and> should_generate_summary ms
                     then summary_push env ms s else [])"
  "push_records (snd (summary_step env ms s)) =
     push_records s @ List.map_filter record_of
                    (if \<not> should_send_realtime ms \<and> should_generate_summary ms
                     then summary_push env ms s else [])"
  by (simp_all add: summary_step_def generate_summary_report_trace generate_summary_report_records)

lemma execute_mode_strategy_trace:
  "push_trace (snd (execute_mode_strategy env ms results idn fids s)) =
     push_trace s @ cycle_push env ms results idn s
   \<and> push_records (snd (execute_mode_strategy env ms results idn fids s)) =
     push_records s @ List.map_filter record_of (cycle_push env ms results idn s)"
proof (cases "detect_new_titles env (platform_ids env)")
  case (Inl e)
  then show ?thesis by (simp add: execute_mode_strategy_def cycle_push_def)
next
  case nt: (Inr new_titles)
  show ?thesis
  proof (cases "load_frequency_words env")
    case (Inl e)
    then show ?thesis using nt by (simp add: execute_mode_strategy_def cycle_push_def)
  next
    case w: (Inr words)
    show ?thesis
    proof (cases "report_mode env = ''current''")
      case True
      show ?thesis
      proof (cases "loaded env")
        case None
        then show ?thesis using nt w True
          by (simp add: execute_mode_strategy_def cycle_push_def Let_def
              realtime_from_history_None)
      next
        case (Some d)
        obtain all_results hidn hti hnt hw where d: "d = (all_results, hidn, hti, hnt, hw)"
          by (cases d) auto
        show ?thesis using nt w True Some d
          by (simp add: execute_mode_strategy_def cycle_push_def Let_def case_prod_beta
              summary_step_trace realtime_from_history_trace
              realtime_from_history_Some[of env all_results hidn hti hnt hw])
      qed
    next
      case False
      then show ?thesis using nt w
        by (simp add: execute_mode_strategy_def cycle_push_def Let_def case_prod_beta
            summary_step_trace realtime_from_crawl_trace)
    qed
  qed
qed

lemma execute_mode_strategy_raises:
  "isl (fst (execute_mode_strategy env ms results idn fids s)) =
     (isl (detect_new_titles env (platform_ids env)) \<or> isl (load_frequency_words env)
      \<or> (report_mode env = ''current'' \<and> loaded env = None))"
proof (cases "loaded env")
  case None
  then show ?thesis
    by (simp add: execute_mode_strategy_def Let_def case_prod_beta realtime_from_history_None
        split: sum.splits)
next
  case (Some d)
  obtain all_results hidn hti hnt hw where d: "d = (all_results, hidn, hti, hnt, hw)"
    by (cases d) auto
  show ?thesis using Some d
    by (simp add: execute_mode_strategy_def Let_def case_prod_beta
        realtime_from_history_Some[of env all_results hidn hti hnt hw] split: sum.splits)
qed

lemma cycle_push_cases:
  "cycle_push env ms results idn s = []
   \<or> (can_push env s
      \<and> (\<exists>mode html. cycle_push env ms results idn s = attempt env (path_report_type ms) mode html))"
  by (auto simp: cycle_push_def realtime_push_def summary_push_def may_push_def path_report_type_def
      Let_def case_prod_beta split: sum.splits option.splits)

lemma execute_no_attempt:
  "\<not> can_push env s \<Longrightarrow> no_attempt s (snd (execute_mode_strategy env ms results idn fids s))"
  using cycle_push_cases[of env ms results idn s]
    execute_mode_strategy_trace[of env ms results idn fids s]
  by (simp add: no_attempt_def)

subsection \<open>The crypto fetcher\<close>

lemma fetch_loop_Cons:
  "reported request print i symbol \<Longrightarrow>
     fetch_loop request print i (symbol # rest) results =
       fetch_loop request print (Suc i) rest
         (AList.update symbol (outcome request print i symbol) results)"
  by (cases "request i symbol"; cases "print i (FetchSucceeded symbol (projr (request i symbol)))")
     (simp_all add: reported_def failure_def outcome_def Let_def)

lemma fetch_loop_raise:
  "\<not> reported request print i symbol \<Longrightarrow>
     \<exists>e. fetch_loop request print i (symbol # rest) results = Inl e"
  by (cases "request i symbol"; cases "print i (FetchSucceeded symbol (projr (request i symbol)))")
     (auto simp: reported_def failure_def Let_def)

lemma fetch_loop_returns:
  "(\<exists>r. fetch_loop request print i symbols results = Inr r)
     = (\<forall>j < length symbols. reported request print (i + j) (symbols ! j))"
proof (induction symbols arbitrary: i results)
  case Nil
  then show ?case by simp
next
  case (Cons symbol rest)
  show ?case
  proof (cases "reported request print i symbol")
    case True
    have "(\<forall>j < length (symbol # rest). reported request print (i + j) ((symbol # rest) ! j))
            = (\<forall>j < length rest. reported request print (Suc i + j) (rest ! j))"
      using True by (auto simp: less_Suc_eq_0_disj)
    then show ?thesis
      using Cons.IH[of "Suc i"] by (simp only: fetch_loop_Cons[OF True])
  next
    case False
    from fetch_loop_raise[OF False] obtain e where
      "fetch_loop request print i (symbol # rest) results = Inl e" by blast
    moreover have "\<not> (\<forall>j < length (symbol # rest).
                      reported request print (i + j) ((symbol # rest) ! j))"
      using False by (auto intro: exI[of _ 0])
    ultimately show ?thesis by (simp only: sum.distinct simp_thms)
  qed
qed

lemma fetch_loop_step:
  "fetch_loop request print i (symbol # rest) results = Inr r \<Longrightarrow>
     fetch_loop request print (Suc i) rest
       (AList.update symbol (outcome request print i symbol) results) = Inr r"
proof -
  assume a: "fetch_loop request print i (symbol # rest) results = Inr r"
  have "reported request print i symbol"
  proof (rule ccontr)
    assume "\<not> reported request print i symbol"
    from fetch_loop_raise[OF this, of rest results] obtain e where
      "fetch_loop request print i (symbol # rest) results = Inl e" by blast
    with a show False by (simp only: sum.distinct)
  qed
  from fetch_loop_Cons[OF this, of rest results] a show ?thesis by (simp only:)
qed

lemma fetch_loop_keys:
  "fetch_loop request print i symbols results = Inr r
     \<Longrightarrow> fst ` set r = fst ` set results \<union> set symbols"
proof (induction symbols arbitrary: i results)
  case Nil
  then show ?case by simp
next
  case (Cons symbol rest)
  from Cons.IH[OF fetch_loop_step[OF Cons.prems]] show ?case by (auto simp: AList.dom_update)
qed

lemma fetch_loop_distinct:
  "fetch_loop request print i symbols results = Inr r \<Longrightarrow> distinct (map fst results)
     \<Longrightarrow> distinct (map fst r)"
proof (induction symbols arbitrary: i results)
  case Nil
  then show ?case by simp
next
  case (Cons symbol rest)
  from Cons.IH[OF fetch_loop_step[OF Cons.prems(1)]] Cons.prems(2) show ?case
    by (simp add: AList.distinct_update)
qed

lemma fetch_loop_other:
  "fetch_loop request print i symbols results = Inr r \<Longrightarrow> k \<notin> set symbols
     \<Longrightarrow> map_of r k = map_of results k"
proof (induction symbols arbitrary: i results)
  case Nil
  then show ?case by simp
next
  case (Cons symbol rest)
  from Cons.IH[OF fetch_loop_step[OF Cons.prems(1)]] Cons.prems(2) show ?case
    by (simp add: AList.update_conv')
qed

lemma fetch_loop_values:
  "fetch_loop request print i symbols results = Inr r \<Longrightarrow> j < length symbols
     \<Longrightarrow> symbols ! j \<notin> set (drop (Suc j) symbols)
     \<Longrightarrow> map_of r (symbols ! j) = Some (outcome request print (i + j) (symbols ! j))"
proof (induction symbols arbitrary: i j results)
  case Nil
  then show ?case by simp
next
  case (Cons symbol rest)
  note step = fetch_loop_step[OF Cons.prems(1)]
  show ?case
  proof (cases j)
    case 0
    have "symbol \<notin> set rest" using Cons.prems(3) 0 by simp
    from fetch_loop_other[OF step this] 0 show ?thesis by (simp add: AList.update_conv')
  next
    case (Suc j')
    have "j' < length rest" "rest ! j' \<notin> set (drop (Suc j') rest)"
      using Cons.prems Suc by simp_all
    from Cons.IH[OF step this] Suc show ?thesis by simp
  qed
qed

lemma fetch_ticker_24h_returns:
  "(\<exists>r. fetch_ticker_24h request print symbols = Inr r)
     = (\<forall>j < length (requested symbols). reported request print j (requested symbols ! j))"
  using fetch_loop_returns[of request print 0 "requested symbols" "[]"]
  by (simp add: fetch_ticker_24h_def requested_def)

lemma fetch_ticker_24h_ok:
  assumes r: "fetch_ticker_24h request print symbols = Inr r"
  shows "fst ` set r = set (requested symbols)
       \<and> distinct (map fst r)
       \<and> (\<forall>j < length (requested symbols).
            requested symbols ! j \<notin> set (drop (Suc j) (requested symbols)) \<longrightarrow>
            map_of r (requested symbols ! j) =
              Some (outcome request print j (requested symbols ! j)))"
proof -
  from r have l: "fetch_loop request print 0 (requested symbols) [] = Inr r"
    by (simp add: fetch_ticker_24h_def requested_def)
  have "fst ` set r = set (requested symbols)"
    using fetch_loop_keys[OF l] by simp
  moreover have "distinct (map fst r)"
    using fetch_loop_distinct[OF l] by simp
  moreover have "\<forall>j < length (requested symbols).
            requested symbols ! j \<notin> set (drop (Suc j) (requested symbols)) \<longrightarrow>
            map_of r (requested symbols ! j) =
              Some (outcome request print j (requested symbols ! j))"
    using fetch_loop_values[OF l] by simp
  ultimately show ?thesis by blast
qed

lemma convert_step_None:
  "convert_step lower render (res, idn, failed) (symbol, None) = (res, idn, failed @ [symbol])"
  by (simp add: convert_step_def)

lemma convert_step_Some:
  "\<exists>title td. convert_step lower render (res, idn, failed) (symbol, Some data) =
     (AList.update (source_id_of lower symbol) [(title, td)] res,
      AList.update (source_id_of lower symbol) (fst (snd (friendly_names lower symbol))) idn,
      failed)"
  by (auto simp: convert_step_def source_id_of_def Let_def case_prod_beta)

lemma singletons_update:
  "singletons res \<Longrightarrow> singletons (AList.update k [x] res)"
  by (induction res) (auto simp: singletons_def)

lemma convert_fold:
  "foldl (convert_step lower render) (res, idn, failed) price_data = (res', idn', failed') \<Longrightarrow>
     failed' = failed @ without_data price_data
     \<and> fst ` set res' = fst ` set res \<union> source_id_of lower ` set (with_data price_data)
     \<and> fst ` set idn' = fst ` set idn \<union> source_id_of lower ` set (with_data price_data)
     \<and> (distinct (map fst res) \<longrightarrow> distinct (map fst res'))
     \<and> (distinct (map fst idn) \<longrightarrow> distinct (map fst idn'))
     \<and> (singletons res \<longrightarrow> singletons res')"
proof (induction price_data arbitrary: res idn failed)
  case Nil
  then show ?case by (simp add: with_data_def without_data_def)
next
  case (Cons item rest)
  obtain symbol d where item: "item = (symbol, d)" by (cases item)
  show ?case
  proof (cases d)
    case None
    from Cons.prems have
      "foldl (convert_step lower render) (res, idn, failed @ [symbol]) rest
         = (res', idn', failed')"
      by (simp add: item None convert_step_None)
    from Cons.IH[OF this] show ?thesis
      by (simp add: item None with_data_def without_data_def)
  next
    case (Some data)
    obtain title td where
      st: "convert_step lower render (res, idn, failed) (symbol, Some data) =
             (AList.update (source_id_of lower symbol) [(title, td)] res,
              AList.update (source_id_of lower symbol)
                (fst (snd (friendly_names lower symbol))) idn, failed)"
      using convert_step_Some by blast
    from Cons.prems have
      "foldl (convert_step lower render)
         (AList.update (source_id_of lower symbol) [(title, td)] res,
          AList.update (source_id_of lower symbol) (fst (snd (friendly_names lower symbol))) idn,
          failed)
         rest = (res', idn', failed')"
      by (simp add: item Some st)
    from Cons.IH[OF this] show ?thesis
      by (auto simp: item Some with_data_def without_data_def AList.dom_update
          AList.distinct_update singletons_update)
  qed
qed

subsection \<open>Evaluating the examples\<close>

lemmas example_defs =
  example_env_def example_cfg_def example_titles_def incremental_env_def weekly_env_def
  unreadable_env_def failing_env_def window_off_env_def every_push_env_def no_channel_env_def
  current_env_def matching_env_def pushed_state_def example_stats_def state0_def

lemmas eval_defs =
  cycle_push_def summary_push_def realtime_push_def loaded_def analysed_def may_push_def
  can_push_def window_allows_def has_pushed_today_def has_notification_configured_def
  truthy_def py_and_def has_valid_content_def any_new_titles_def attempt_def records_push_def
  any_success_def load_analysis_data_def run_analysis_pipeline_def emit_def
  prepare_current_title_info_def Let_def

subsection \<open>The push record\<close>

text \<open>
  C4. The push record is written only after a dispatch in which a channel reported
  success, for one call of the notification step and for a whole cycle: either the record
  is unchanged, or the trace grew by a dispatch with a successful outcome followed by the
  record of its report type.  A dispatch whose outcome has no success (every channel
  failed, or the outcome is empty because no channel was configured) leaves the record as
  it was.
\<close>

theorem push_record_only_after_success:
  "((push_records (snd (send_notification_if_needed env stats rt mode fids nt idn html s))
       = push_records s
     \<and> recorded (snd (send_notification_if_needed env stats rt mode fids nt idn html s))
       = recorded s)
    \<or> (succeeded (dispatch_all env rt mode html)
       \<and> push_trace (snd (send_notification_if_needed env stats rt mode fids nt idn html s))
           = push_trace s @ [Dispatch rt mode html, RecordPush rt]
       \<and> push_records (snd (send_notification_if_needed env stats rt mode fids nt idn html s))
           = push_records s @ [rt]))
   \<and> ((push_records (snd (execute_mode_strategy env ms results idn0 fids0 s)) = push_records s
        \<and> recorded (snd (execute_mode_strategy env ms results idn0 fids0 s)) = recorded s)
      \<or> (\<exists>rt' mode' html'.
            succeeded (dispatch_all env rt' mode' html')
          \<and> push_trace (snd (execute_mode_strategy env ms results idn0 fids0 s))
              = push_trace s @ [Dispatch rt' mode' html', RecordPush rt']
          \<and> push_records (snd (execute_mode_strategy env ms results idn0 fids0 s))
              = push_records s @ [rt']))
   \<and> (\<not> succeeded (dispatch_all env rt mode html) \<longrightarrow>
        push_records (snd (send_notification_if_needed env stats rt mode fids nt idn html s))
          = push_records s
      \<and> recorded (snd (send_notification_if_needed env stats rt mode fids nt idn html s))
          = recorded s)
   \<and> ((\<forall>rt' mode' html'. \<not> succeeded (dispatch_all env rt' mode' html')) \<longrightarrow>
        push_records (snd (execute_mode_strategy env ms results idn0 fids0 s)) = push_records s
      \<and> recorded (snd (execute_mode_strategy env ms results idn0 fids0 s)) = recorded s)"
proof -
  have a: "(push_records (snd (send_notification_if_needed env stats rt mode fids nt idn html s))
       = push_records s
     \<and> recorded (snd (send_notification_if_needed env stats rt mode fids nt idn html s))
       = recorded s)
    \<or> (succeeded (dispatch_all env rt mode html)
       \<and> push_trace (snd (send_notification_if_needed env stats rt mode fids nt idn html s))
           = push_trace s @ [Dispatch rt mode html, RecordPush rt]
       \<and> push_records (snd (send_notification_if_needed env stats rt mode fids nt idn html s))
           = push_records s @ [rt])"
    by (simp add: recorded_push_trace send_trace attempt_cases records_push_def any_success_iff)
  have b: "(push_records (snd (execute_mode_strategy env ms results idn0 fids0 s)) = push_records s
        \<and> recorded (snd (execute_mode_strategy env ms results idn0 fids0 s)) = recorded s)
      \<or> (\<exists>rt' mode' html'.
            succeeded (dispatch_all env rt' mode' html')
          \<and> push_trace (snd (execute_mode_strategy env ms results idn0 fids0 s))
              = push_trace s @ [Dispatch rt' mode' html', RecordPush rt']
          \<and> push_records (snd (execute_mode_strategy env ms results idn0 fids0 s))
              = push_records s @ [rt'])"
    using cycle_push_cases[of env ms results idn0 s]
      execute_mode_strategy_trace[of env ms results idn0 fids0 s]
    by (auto simp: recorded_push_trace attempt_cases split: if_splits)
  have c: "\<not> succeeded (dispatch_all env rt mode html) \<longrightarrow>
        push_records (snd (send_notification_if_needed env stats rt mode fids nt idn html s))
          = push_records s
      \<and> recorded (snd (send_notification_if_needed env stats rt mode fids nt idn html s))
          = recorded s"
    using a by blast
  have d: "(\<forall>rt' mode' html'. \<not> succeeded (dispatch_all env rt' mode' html')) \<longrightarrow>
        push_records (snd (execute_mode_strategy env ms results idn0 fids0 s)) = push_records s
      \<and> recorded (snd (execute_mode_strategy env ms results idn0 fids0 s)) = recorded s"
    using b by blast
  show ?thesis using a b c d by blast
qed

theorem push_record_only_after_success_witness:
  "\<not> succeeded (dispatch_all failing_env DAILY_SUMMARY ''daily'' None)
   \<and> push_trace (snd (send_notification_if_needed failing_env example_stats DAILY_SUMMARY ''daily''
                        [] (Some example_titles) [] None state0))
       = [Dispatch DAILY_SUMMARY ''daily'' None]
   \<and> push_records (snd (send_notification_if_needed failing_env example_stats DAILY_SUMMARY
                           ''daily'' [] (Some example_titles) [] None state0))
       = push_records state0
   \<and> push_records (snd (execute_mode_strategy failing_env daily_strategy example_titles [] []
                           state0))
       = push_records state0"
proof -
  have h: "\<forall>rt mode html. \<not> succeeded (dispatch_all failing_env rt mode html)"
    by (simp add: succeeded_def failing_env_def example_env_def)
  have t: "push_trace (snd (send_notification_if_needed failing_env example_stats DAILY_SUMMARY
                              ''daily'' [] (Some example_titles) [] None state0))
             = [Dispatch DAILY_SUMMARY ''daily'' None]"
    by (simp only: send_trace) (simp add: example_defs eval_defs push_trace_def)
  show ?thesis
    using h t
      push_record_only_after_success[of failing_env example_stats DAILY_SUMMARY "''daily''" "[]"
        "Some example_titles" "[]" None state0 daily_strategy example_titles "[]" "[]"]
    by blast
qed

subsection \<open>The once-per-day rule\<close>

lemma send_prints_only:
  assumes "PUSH_WINDOW_ENABLED (cfg env)" "PUSH_WINDOW_ONCE_PER_DAY (cfg env)" "has_pushed_today s"
  shows "\<exists>m. snd (send_notification_if_needed env stats rt mode fids nt idn html s) = emit (Print m) s"
  using assms
  by (auto simp: send_notification_if_needed_def Let_def case_prod_beta)

text \<open>
  C5, as amended.  When the push window and its once-per-day rule are both enabled and a
  push has been recorded today, the notification step returns false and its only effect
  is one printed line: nothing is prepared, dispatched or recorded.  With notifications
  enabled, a channel configured, valid content and the time inside the window, that line
  is the notice that today's push has already gone out.  A whole cycle started in such a
  state dispatches and records nothing.
\<close>

theorem once_per_day_blocks_second_push:
  assumes "PUSH_WINDOW_ENABLED (cfg env)"
    and "PUSH_WINDOW_ONCE_PER_DAY (cfg env)"
    and "has_pushed_today s"
  shows "fst (send_notification_if_needed env stats rt mode fids nt idn html s) = False
       \<and> (\<exists>m. snd (send_notification_if_needed env stats rt mode fids nt idn html s)
                = emit (Print m) s)
       \<and> (ENABLE_NOTIFICATION (cfg env) \<and> has_notification_configured (cfg env)
            \<and> has_valid_content (report_mode env) stats nt
            \<and> is_in_time_range env (PUSH_WINDOW_TIME_RANGE_START (cfg env))
                 (PUSH_WINDOW_TIME_RANGE_END (cfg env))
          \<longrightarrow> snd (send_notification_if_needed env stats rt mode fids nt idn html s)
                = emit (Print AlreadyPushedToday) s)
       \<and> no_attempt s (snd (execute_mode_strategy env ms results idn0 fids0 s))"
proof -
  have blocked: "\<not> can_push env s"
    using assms by (simp add: can_push_def window_allows_def)
  have a: "fst (send_notification_if_needed env stats rt mode fids nt idn html s) = False"
    using blocked by (simp add: send_trace may_push_def)
  have b: "\<exists>m. snd (send_notification_if_needed env stats rt mode fids nt idn html s)
                = emit (Print m) s"
    using assms by (rule send_prints_only)
  have c: "ENABLE_NOTIFICATION (cfg env) \<and> has_notification_configured (cfg env)
            \<and> has_valid_content (report_mode env) stats nt
            \<and> is_in_time_range env (PUSH_WINDOW_TIME_RANGE_START (cfg env))
                 (PUSH_WINDOW_TIME_RANGE_END (cfg env))
          \<longrightarrow> snd (send_notification_if_needed env stats rt mode fids nt idn html s)
                = emit (Print AlreadyPushedToday) s"
    using assms by (simp add: send_notification_if_needed_def Let_def)
  have d: "no_attempt s (snd (execute_mode_strategy env ms results idn0 fids0 s))"
    using blocked by (rule execute_no_attempt)
  show ?thesis using a b c d by blast
qed

theorem once_per_day_blocks_second_push_witness:
  "PUSH_WINDOW_ENABLED (cfg example_env) \<and> PUSH_WINDOW_ONCE_PER_DAY (cfg example_env)
   \<and> has_pushed_today pushed_state
   \<and> has_valid_content (report_mode example_env) example_stats (Some example_titles)
   \<and> fst (send_notification_if_needed example_env example_stats DAILY_SUMMARY ''daily'' []
             (Some example_titles) [] None pushed_state) = False
   \<and> snd (send_notification_if_needed example_env example_stats DAILY_SUMMARY ''daily'' []
             (Some example_titles) [] None pushed_state)
       = emit (Print AlreadyPushedToday) pushed_state
   \<and> no_attempt pushed_state
        (snd (execute_mode_strategy example_env daily_strategy example_titles [] [] pushed_state))"
proof -
  have h: "PUSH_WINDOW_ENABLED (cfg example_env)" "PUSH_WINDOW_ONCE_PER_DAY (cfg example_env)"
    "has_pushed_today pushed_state"
    by (simp_all add: example_defs has_pushed_today_def DAILY_SUMMARY_def)
  have g: "ENABLE_NOTIFICATION (cfg example_env) \<and> has_notification_configured (cfg example_env)
            \<and> has_valid_content (report_mode example_env) example_stats (Some example_titles)
            \<and> is_in_time_range example_env (PUSH_WINDOW_TIME_RANGE_START (cfg example_env))
                 (PUSH_WINDOW_TIME_RANGE_END (cfg example_env))"
    by (simp add: example_defs eval_defs)
  show ?thesis
    using h g
      once_per_day_blocks_second_push[OF h, of example_stats DAILY_SUMMARY "''daily''" "[]"
        "Some example_titles" "[]" None daily_strategy example_titles "[]" "[]"]
    by blast
qed

text \<open>
  C5 as stated (the once-per-day rule alone, without the push window being enabled)
  fails: with \<open>PUSH_WINDOW.ENABLED\<close> unset the window control is skipped as a whole, and
  a cycle with valid content dispatches although a push is recorded for today.
\<close>

theorem once_per_day_without_window_counterexample:
  "PUSH_WINDOW_ONCE_PER_DAY (cfg window_off_env) \<and> has_pushed_today pushed_state
   \<and> has_valid_content (report_mode window_off_env) example_stats (Some example_titles)
   \<and> fst (send_notification_if_needed window_off_env example_stats DAILY_SUMMARY ''daily'' []
             (Some example_titles) [] None pushed_state) = True
   \<and> push_trace (snd (send_notification_if_needed window_off_env example_stats DAILY_SUMMARY
                         ''daily'' [] (Some example_titles) [] None pushed_state))
       = [Dispatch DAILY_SUMMARY ''daily'' None]"
  by (simp only: send_trace)
     (simp add: example_defs eval_defs push_trace_def DAILY_SUMMARY_def)

text \<open>
  C6, as amended.  When the push window and its once-per-day rule are both enabled and the
  dispatcher reports success on a channel, the dispatch is followed by the record of its
  report type.  In a cycle that report type is the one of the path that sends: the
  realtime report type of a strategy with a realtime step, the summary report type
  otherwise.
\<close>

theorem successful_push_is_recorded:
  assumes "PUSH_WINDOW_ENABLED (cfg env)"
    and "PUSH_WINDOW_ONCE_PER_DAY (cfg env)"
  shows "(push_trace (snd (send_notification_if_needed env stats rt mode fids nt idn html s))
            = push_trace s @ X
          \<and> X \<noteq> [] \<and> succeeded (dispatch_all env rt mode html)
          \<longrightarrow> X = [Dispatch rt mode html, RecordPush rt]
              \<and> push_records (snd (send_notification_if_needed env stats rt mode fids nt idn html s))
                  = push_records s @ [rt])
       \<and> (push_trace (snd (execute_mode_strategy env ms results idn0 fids0 s))
            = push_trace s @ Y
          \<and> Dispatch rt' mode' html' \<in> set Y \<and> succeeded (dispatch_all env rt' mode' html')
          \<longrightarrow> rt' = path_report_type ms
              \<and> Y = [Dispatch rt' mode' html', RecordPush rt']
              \<and> push_records (snd (execute_mode_strategy env ms results idn0 fids0 s))
                  = push_records s @ [rt'])"
proof -
  have a: "push_trace (snd (send_notification_if_needed env stats rt mode fids nt idn html s))
            = push_trace s @ X
          \<and> X \<noteq> [] \<and> succeeded (dispatch_all env rt mode html)
          \<longrightarrow> X = [Dispatch rt mode html, RecordPush rt]
              \<and> push_records (snd (send_notification_if_needed env stats rt mode fids nt idn html s))
                  = push_records s @ [rt]"
    using assms
    by (auto simp: send_trace attempt_cases records_push_def any_success_iff split: if_splits)
  have b: "push_trace (snd (execute_mode_strategy env ms results idn0 fids0 s))
            = push_trace s @ Y
          \<and> Dispatch rt' mode' html' \<in> set Y \<and> succeeded (dispatch_all env rt' mode' html')
          \<longrightarrow> rt' = path_report_type ms
              \<and> Y = [Dispatch rt' mode' html', RecordPush rt']
              \<and> push_records (snd (execute_mode_strategy env ms results idn0 fids0 s))
                  = push_records s @ [rt']"
    using assms cycle_push_cases[of env ms results idn0 s]
      execute_mode_strategy_trace[of env ms results idn0 fids0 s]
    by (auto simp: attempt_cases records_push_def any_success_iff split: if_splits)
  show ?thesis using a b by blast
qed

theorem successful_push_is_recorded_witness:
  "PUSH_WINDOW_ENABLED (cfg example_env) \<and> PUSH_WINDOW_ONCE_PER_DAY (cfg example_env)
   \<and> succeeded (dispatch_all example_env REALTIME_CURRENT ''current'' None)
   \<and> push_trace (snd (send_notification_if_needed example_env example_stats REALTIME_CURRENT
                         ''current'' [] (Some example_titles) [] None state0))
       = push_trace state0
           @ [Dispatch REALTIME_CURRENT ''current'' None, RecordPush REALTIME_CURRENT]
   \<and> push_records (snd (send_notification_if_needed example_env example_stats REALTIME_CURRENT
                           ''current'' [] (Some example_titles) [] None state0))
       = push_records state0 @ [REALTIME_CURRENT]
   \<and> succeeded (dispatch_all example_env DAILY_SUMMARY ''daily'' (Some ''output/index.html''))
   \<and> push_trace (snd (execute_mode_strategy example_env daily_strategy example_titles [] []
                         state0))
       = push_trace state0
           @ [Dispatch DAILY_SUMMARY ''daily'' (Some ''output/index.html''),
              RecordPush DAILY_SUMMARY]
   \<and> DAILY_SUMMARY = path_report_type daily_strategy
   \<and> push_records (snd (execute_mode_strategy example_env daily_strategy example_titles [] []
                           state0))
       = push_records state0 @ [DAILY_SUMMARY]"
proof -
  have h: "PUSH_WINDOW_ENABLED (cfg example_env)" "PUSH_WINDOW_ONCE_PER_DAY (cfg example_env)"
    by (simp_all add: example_defs)
  have s: "succeeded (dispatch_all example_env REALTIME_CURRENT ''current'' None)"
    "succeeded (dispatch_all example_env DAILY_SUMMARY ''daily'' (Some ''output/index.html''))"
    by (simp_all add: succeeded_def example_defs)
  have u: "push_trace (snd (send_notification_if_needed example_env example_stats
                              REALTIME_CURRENT ''current'' [] (Some example_titles) [] None
                              state0))
             = push_trace state0
                 @ [Dispatch REALTIME_CURRENT ''current'' None, RecordPush REALTIME_CURRENT]"
    by (simp only: send_trace) (simp add: example_defs eval_defs)
  have t: "push_trace (snd (execute_mode_strategy example_env daily_strategy example_titles []
                              [] state0))
             = push_trace state0
                 @ [Dispatch DAILY_SUMMARY ''daily'' (Some ''output/index.html''),
                    RecordPush DAILY_SUMMARY]"
    by (simp only: execute_mode_strategy_trace)
       (simp add: example_defs eval_defs daily_strategy_def)
  note w = successful_push_is_recorded[OF h, of example_stats REALTIME_CURRENT "''current''" "[]"
        "Some example_titles" "[]" None state0
        "[Dispatch REALTIME_CURRENT ''current'' None, RecordPush REALTIME_CURRENT]"
        daily_strategy example_titles "[]" "[]"
        "[Dispatch DAILY_SUMMARY ''daily'' (Some ''output/index.html''), RecordPush DAILY_SUMMARY]"
        DAILY_SUMMARY "''daily''" "Some ''output/index.html''"]
  have x: "push_records (snd (send_notification_if_needed example_env example_stats
                                REALTIME_CURRENT ''current'' [] (Some example_titles) [] None
                                state0))
             = push_records state0 @ [REALTIME_CURRENT]"
    using w[THEN conjunct1] u s(1) by simp
  have y: "DAILY_SUMMARY = path_report_type daily_strategy
           \<and> push_records (snd (execute_mode_strategy example_env daily_strategy example_titles
                                   [] [] state0))
               = push_records state0 @ [DAILY_SUMMARY]"
    using w[THEN conjunct2] t s(2) by simp
  show ?thesis using h s u t x y by simp
qed

text \<open>
  C6 as stated (push window enabled, success on a channel) fails when the once-per-day
  rule is off: the report is dispatched and nothing is recorded.
\<close>

theorem push_window_without_once_per_day_counterexample:
  "PUSH_WINDOW_ENABLED (cfg every_push_env)
   \<and> succeeded (dispatch_all every_push_env DAILY_SUMMARY ''daily'' None)
   \<and> push_trace (snd (send_notification_if_needed every_push_env example_stats DAILY_SUMMARY
                         ''daily'' [] (Some example_titles) [] None state0))
       = [Dispatch DAILY_SUMMARY ''daily'' None]
   \<and> recorded (snd (send_notification_if_needed every_push_env example_stats DAILY_SUMMARY
                       ''daily'' [] (Some example_titles) [] None state0)) = []
   \<and> push_records (snd (send_notification_if_needed every_push_env example_stats DAILY_SUMMARY
                           ''daily'' [] (Some example_titles) [] None state0)) = []"
  by (simp only: send_trace recorded_push_trace)
     (simp add: example_defs eval_defs push_trace_def succeeded_def)

subsection \<open>Configured channels\<close>

text \<open>
  C8. The check for a configured channel holds iff some channel has all its minimum
  credentials: one of the five webhook or push URLs, or the bot token together with the
  chat id, or the mail sender, password and recipient together, or the push server URL
  together with its topic.  When no channel is configured the notification step returns
  false without a dispatch, and so does a whole cycle.
\<close>

theorem notification_configured_iff:
  "has_notification_configured c =
     (FEISHU_WEBHOOK_URL c \<noteq> [] \<or> DINGTALK_WEBHOOK_URL c \<noteq> [] \<or> WEWORK_WEBHOOK_URL c \<noteq> []
      \<or> (TELEGRAM_BOT_TOKEN c \<noteq> [] \<and> TELEGRAM_CHAT_ID c \<noteq> [])
      \<or> (EMAIL_FROM c \<noteq> [] \<and> EMAIL_PASSWORD c \<noteq> [] \<and> EMAIL_TO c \<noteq> [])
      \<or> (NTFY_SERVER_URL c \<noteq> [] \<and> NTFY_TOPIC c \<noteq> [])
      \<or> BARK_URL c \<noteq> [] \<or> SLACK_WEBHOOK_URL c \<noteq> [])
   \<and> (\<not> has_notification_configured (cfg env) \<longrightarrow>
        fst (send_notification_if_needed env stats rt mode fids nt idn html s) = False
      \<and> no_attempt s (snd (send_notification_if_needed env stats rt mode fids nt idn html s))
      \<and> no_attempt s (snd (execute_mode_strategy env ms results idn0 fids0 s)))"
proof -
  have a: "has_notification_configured c =
     (FEISHU_WEBHOOK_URL c \<noteq> [] \<or> DINGTALK_WEBHOOK_URL c \<noteq> [] \<or> WEWORK_WEBHOOK_URL c \<noteq> []
      \<or> (TELEGRAM_BOT_TOKEN c \<noteq> [] \<and> TELEGRAM_CHAT_ID c \<noteq> [])
      \<or> (EMAIL_FROM c \<noteq> [] \<and> EMAIL_PASSWORD c \<noteq> [] \<and> EMAIL_TO c \<noteq> [])
      \<or> (NTFY_SERVER_URL c \<noteq> [] \<and> NTFY_TOPIC c \<noteq> [])
      \<or> BARK_URL c \<noteq> [] \<or> SLACK_WEBHOOK_URL c \<noteq> [])"
    by (auto simp: has_notification_configured_def truthy_def py_and_def)
  have b: "\<not> has_notification_configured (cfg env) \<longrightarrow>
        fst (send_notification_if_needed env stats rt mode fids nt idn html s) = False
      \<and> no_attempt s (snd (send_notification_if_needed env stats rt mode fids nt idn html s))
      \<and> no_attempt s (snd (execute_mode_strategy env ms results idn0 fids0 s))"
  proof
    assume n: "\<not> has_notification_configured (cfg env)"
    then have blocked: "\<not> can_push env s" by (simp add: can_push_def)
    then have "fst (send_notification_if_needed env stats rt mode fids nt idn html s) = False"
      "no_attempt s (snd (send_notification_if_needed env stats rt mode fids nt idn html s))"
      by (simp_all add: send_trace may_push_def no_attempt_def)
    moreover have "no_attempt s (snd (execute_mode_strategy env ms results idn0 fids0 s))"
      using blocked by (rule execute_no_attempt)
    ultimately show "fst (send_notification_if_needed env stats rt mode fids nt idn html s) = False
      \<and> no_attempt s (snd (send_notification_if_needed env stats rt mode fids nt idn html s))
      \<and> no_attempt s (snd (execute_mode_strategy env ms results idn0 fids0 s))"
      by blast
  qed
  show ?thesis using a b by blast
qed

theorem notification_configured_iff_witness:
  "TELEGRAM_BOT_TOKEN (cfg no_channel_env) \<noteq> [] \<and> TELEGRAM_CHAT_ID (cfg no_channel_env) = []
   \<and> \<not> has_notification_configured (cfg no_channel_env)
   \<and> has_notification_configured (cfg example_env)
   \<and> fst (send_notification_if_needed no_channel_env example_stats DAILY_SUMMARY ''daily'' []
             (Some example_titles) [] None state0) = False
   \<and> no_attempt state0
        (snd (send_notification_if_needed no_channel_env example_stats DAILY_SUMMARY ''daily'' []
                (Some example_titles) [] None state0))
   \<and> no_attempt state0
        (snd (execute_mode_strategy no_channel_env daily_strategy example_titles [] [] state0))"
proof -
  have f: "TELEGRAM_BOT_TOKEN (cfg no_channel_env) \<noteq> []"
    "TELEGRAM_CHAT_ID (cfg no_channel_env) = []"
    "FEISHU_WEBHOOK_URL (cfg example_env) \<noteq> []"
    by (simp_all add: example_defs)
  have n: "\<not> has_notification_configured (cfg no_channel_env)"
    using notification_configured_iff[of "cfg no_channel_env"]
    by (simp add: example_defs)
  have y: "has_notification_configured (cfg example_env)"
    using notification_configured_iff[of "cfg example_env"] f(3) by blast
  show ?thesis
    using f n y
      notification_configured_iff[of "cfg no_channel_env" no_channel_env example_stats
        DAILY_SUMMARY "''daily''" "[]" "Some example_titles" "[]" None state0 daily_strategy
        example_titles "[]" "[]"]
    by blast
qed

subsection \<open>The cycle\<close>

text \<open>
  C3. In current mode, when the day's data cannot be loaded back (the read fails or is
  empty), the cycle ends with an exception and neither dispatches nor records anything;
  when the two collaborator calls before the load returned, the exception is the
  \<open>RuntimeError\<close> of the consistency check.
\<close>

theorem current_mode_consistency_failure:
  assumes "report_mode env = ''current''"
    and "fst (load_analysis_data env False s0) = None"
  shows "isl (fst (execute_mode_strategy env ms results idn fids s))
       \<and> no_attempt s (snd (execute_mode_strategy env ms results idn fids s))
       \<and> (\<not> isl (detect_new_titles env (platform_ids env)) \<and> \<not> isl (load_frequency_words env)
          \<longrightarrow> fst (execute_mode_strategy env ms results idn fids s) = Inl RuntimeError)"
proof -
  have l: "loaded env = None" using assms(2) by simp
  have a: "isl (fst (execute_mode_strategy env ms results idn fids s))"
    using assms(1) l by (simp add: execute_mode_strategy_raises)
  have "cycle_push env ms results idn s = []"
    using assms(1) l by (simp add: cycle_push_def split: sum.splits)
  then have b: "no_attempt s (snd (execute_mode_strategy env ms results idn fids s))"
    using execute_mode_strategy_trace[of env ms results idn fids s] by (simp add: no_attempt_def)
  have c: "\<not> isl (detect_new_titles env (platform_ids env)) \<and> \<not> isl (load_frequency_words env)
          \<longrightarrow> fst (execute_mode_strategy env ms results idn fids s) = Inl RuntimeError"
    using assms(1) l
    by (auto simp: execute_mode_strategy_def Let_def realtime_from_history_None
        split: sum.splits)
  show ?thesis using a b c by blast
qed

theorem current_mode_consistency_failure_witness:
  "report_mode unreadable_env = ''current''
   \<and> fst (load_analysis_data unreadable_env False state0) = None
   \<and> fst (execute_mode_strategy unreadable_env current_strategy example_titles [] [] state0)
       = Inl RuntimeError
   \<and> no_attempt state0
        (snd (execute_mode_strategy unreadable_env current_strategy example_titles [] [] state0))"
proof -
  have h: "report_mode unreadable_env = ''current''"
    "fst (load_analysis_data unreadable_env False state0) = None"
    by (simp_all add: unreadable_env_def example_env_def load_analysis_data_def)
  have g: "\<not> isl (detect_new_titles unreadable_env (platform_ids unreadable_env))
           \<and> \<not> isl (load_frequency_words unreadable_env)"
    by (simp add: unreadable_env_def example_env_def)
  show ?thesis
    using h g
      current_mode_consistency_failure[OF h, of current_strategy example_titles "[]" "[]" state0]
    by blast
qed

text \<open>
  C2, as amended.  What the summary step does is decided by the strategy, not by whether
  the realtime push went out.  For a strategy with a realtime step the summary step
  produces the artifact only and neither dispatches nor records; in particular this is so
  whenever a realtime push happened.  For a strategy without one (daily) the summary step
  runs gate, throttle, dispatch and record over the day's data with the summary report
  type.  A cycle attempts at most one push, of the report type of the path that sends.
\<close>

theorem summary_push_by_strategy:
  "(should_send_realtime ms \<longrightarrow> no_attempt s (snd (summary_step env ms s)))
   \<and> (push_trace (snd (realtime_from_crawl env ms results idn fids nt ti w s)) \<noteq> push_trace s
        \<longrightarrow> no_attempt s1 (snd (summary_step env ms s1)))
   \<and> (push_trace (snd (realtime_from_history env ms idn fids w s)) \<noteq> push_trace s
        \<longrightarrow> no_attempt s1 (snd (summary_step env ms s1)))
   \<and> (\<not> should_send_realtime ms \<and> should_generate_summary ms \<longrightarrow>
        push_trace (snd (summary_step env ms s)) = push_trace s @ summary_push env ms s
      \<and> push_records (snd (summary_step env ms s))
          = push_records s @ List.map_filter record_of (summary_push env ms s))
   \<and> (\<exists>X. push_trace (snd (execute_mode_strategy env ms results idn fids s)) = push_trace s @ X
          \<and> (X = [] \<or> (\<exists>mode html. X = attempt env (path_report_type ms) mode html)))"
proof -
  have a: "should_send_realtime ms \<longrightarrow> no_attempt s2 (snd (summary_step env ms s2))" for s2
    by (simp add: summary_step_trace no_attempt_def)
  have b: "push_trace (snd (realtime_from_crawl env ms results idn fids nt ti w s)) \<noteq> push_trace s
        \<longrightarrow> should_send_realtime ms"
    by (auto simp: realtime_from_crawl_trace case_prod_beta realtime_push_def)
  have c: "push_trace (snd (realtime_from_history env ms idn fids w s)) \<noteq> push_trace s
        \<longrightarrow> should_send_realtime ms"
    by (auto simp: realtime_from_history_trace case_prod_beta realtime_push_def
        split: option.splits)
  have d: "\<not> should_send_realtime ms \<and> should_generate_summary ms \<longrightarrow>
        push_trace (snd (summary_step env ms s)) = push_trace s @ summary_push env ms s
      \<and> push_records (snd (summary_step env ms s))
          = push_records s @ List.map_filter record_of (summary_push env ms s)"
    by (simp add: summary_step_trace)
  have e: "\<exists>X. push_trace (snd (execute_mode_strategy env ms results idn fids s)) = push_trace s @ X
          \<and> (X = [] \<or> (\<exists>mode html. X = attempt env (path_report_type ms) mode html))"
    using cycle_push_cases[of env ms results idn s]
      execute_mode_strategy_trace[of env ms results idn fids s]
    by blast
  show ?thesis using a[of s] a[of s1] b c d e by blast
qed

theorem summary_push_by_strategy_witness:
  "should_send_realtime current_strategy
   \<and> push_trace (snd (realtime_from_history current_env current_strategy [] []
                         ([[''AI'']], [], []) state0)) \<noteq> push_trace state0
   \<and> no_attempt pushed_state (snd (summary_step current_env current_strategy pushed_state))
   \<and> push_trace (snd (realtime_from_crawl matching_env incremental_strategy example_titles []
                         [] example_titles ''09:30'' ([[''AI'']], [], []) state0))
       \<noteq> push_trace state0
   \<and> no_attempt pushed_state (snd (summary_step matching_env incremental_strategy pushed_state))
   \<and> \<not> should_send_realtime daily_strategy \<and> should_generate_summary daily_strategy
   \<and> push_trace (snd (summary_step example_env daily_strategy state0))
       = push_trace state0 @ summary_push example_env daily_strategy state0
   \<and> summary_push example_env daily_strategy state0
       = [Dispatch DAILY_SUMMARY ''daily'' (Some ''output/index.html''), RecordPush DAILY_SUMMARY]"
proof -
  have f: "should_send_realtime current_strategy" "\<not> should_send_realtime daily_strategy"
    "should_generate_summary daily_strategy"
    by (simp_all add: current_strategy_def daily_strategy_def)
  have r: "push_trace (snd (realtime_from_history current_env current_strategy [] []
                         ([[''AI'']], [], []) state0)) \<noteq> push_trace state0"
    by (simp only: realtime_from_history_trace)
       (simp add: example_defs eval_defs current_strategy_def push_trace_def)
  have c: "push_trace (snd (realtime_from_crawl matching_env incremental_strategy example_titles
                         [] [] example_titles ''09:30'' ([[''AI'']], [], []) state0))
       \<noteq> push_trace state0"
    by (simp only: realtime_from_crawl_trace)
       (simp add: example_defs eval_defs incremental_strategy_def push_trace_def)
  have v: "summary_push example_env daily_strategy state0
       = [Dispatch DAILY_SUMMARY ''daily'' (Some ''output/index.html''), RecordPush DAILY_SUMMARY]"
    by (simp add: example_defs eval_defs daily_strategy_def)
  have a1: "no_attempt pushed_state (snd (summary_step current_env current_strategy pushed_state))"
    using r
      summary_push_by_strategy[of current_strategy state0 current_env example_titles "[]" "[]"
        example_titles "[]" "([[''AI'']], [], [])" pushed_state]
    by blast
  have a2: "no_attempt pushed_state
              (snd (summary_step matching_env incremental_strategy pushed_state))"
    using c
      summary_push_by_strategy[of incremental_strategy state0 matching_env example_titles "[]"
        "[]" example_titles "''09:30''" "([[''AI'']], [], [])" pushed_state]
    by blast
  have a3: "push_trace (snd (summary_step example_env daily_strategy state0))
       = push_trace state0 @ summary_push example_env daily_strategy state0"
    using f(2,3)
      summary_push_by_strategy[of daily_strategy state0 example_env example_titles "[]" "[]"
        example_titles "[]" "([[''AI'']], [], [])" state0]
    by blast
  show ?thesis using f r c v a1 a2 a3 by (intro conjI) assumption+
qed

text \<open>
  C2 as stated fails where it says that the summary is sent whenever no realtime push
  happened: in incremental mode the realtime push is skipped when none of the new titles
  matches, and the summary step still produces the artifact only, although the sequence
  gate, throttle, dispatch, record for the summary report type would have dispatched.
\<close>

theorem summary_after_skipped_realtime_counterexample:
  "push_trace (snd (execute_mode_strategy incremental_env incremental_strategy example_titles
                      [] [] state0)) = []
   \<and> push_trace (snd (generate_summary_report incremental_env incremental_strategy state0))
       = [Dispatch DAILY_SUMMARY ''daily'' (Some ''output/index.html''), RecordPush DAILY_SUMMARY]"
  by (simp only: execute_mode_strategy_trace generate_summary_report_trace)
     (simp add: example_defs eval_defs incremental_strategy_def push_trace_def)

subsection \<open>The strategy registry\<close>

text \<open>
  C7, as amended.  The registry has exactly the keys incremental, current and daily, with
  the flags of the table: incremental and current send in realtime, daily does not and
  has an empty realtime report type, and all three generate a summary.  The lookup yields
  the strategy of a registered name and the daily strategy for every other name, and it
  leaves the state as it is: nothing is printed.
\<close>

theorem mode_strategy_registry:
  "map fst MODE_STRATEGIES = [''incremental'', ''current'', ''daily'']
   \<and> map snd MODE_STRATEGIES = [incremental_strategy, current_strategy, daily_strategy]
   \<and> should_send_realtime incremental_strategy \<and> should_generate_summary incremental_strategy
   \<and> summary_mode incremental_strategy = ''daily''
   \<and> should_send_realtime current_strategy \<and> should_generate_summary current_strategy
   \<and> summary_mode current_strategy = ''current''
   \<and> \<not> should_send_realtime daily_strategy \<and> realtime_report_type daily_strategy = []
   \<and> should_generate_summary daily_strategy \<and> summary_mode daily_strategy = ''daily''
   \<and> (report_mode env = ''incremental'' \<longrightarrow> get_mode_strategy env s = (incremental_strategy, s))
   \<and> (report_mode env = ''current'' \<longrightarrow> get_mode_strategy env s = (current_strategy, s))
   \<and> (report_mode env = ''daily'' \<longrightarrow> get_mode_strategy env s = (daily_strategy, s))
   \<and> (report_mode env \<notin> {''incremental'', ''current'', ''daily''}
        \<longrightarrow> get_mode_strategy env s = (daily_strategy, s))"
  by (simp add: MODE_STRATEGIES_def incremental_strategy_def current_strategy_def
      daily_strategy_def get_mode_strategy_def)

theorem mode_strategy_registry_witness:
  "report_mode weekly_env \<notin> {''incremental'', ''current'', ''daily''}
   \<and> get_mode_strategy weekly_env state0 = (daily_strategy, state0)
   \<and> report_mode incremental_env = ''incremental''
   \<and> get_mode_strategy incremental_env state0 = (incremental_strategy, state0)
   \<and> report_mode current_env = ''current''
   \<and> get_mode_strategy current_env state0 = (current_strategy, state0)
   \<and> report_mode example_env = ''daily''
   \<and> get_mode_strategy example_env state0 = (daily_strategy, state0)"
proof -
  have h: "report_mode weekly_env \<notin> {''incremental'', ''current'', ''daily''}"
    "report_mode incremental_env = ''incremental''"
    "report_mode current_env = ''current''"
    "report_mode example_env = ''daily''"
    by (simp_all add: weekly_env_def incremental_env_def current_env_def example_env_def)
  have a: "get_mode_strategy weekly_env state0 = (daily_strategy, state0)"
    using h(1) mode_strategy_registry[of weekly_env state0] by (elim conjE) (erule mp)
  have b: "get_mode_strategy incremental_env state0 = (incremental_strategy, state0)"
    using h(2) mode_strategy_registry[of incremental_env state0] by (elim conjE) (erule mp)
  have c: "get_mode_strategy current_env state0 = (current_strategy, state0)"
    using h(3) mode_strategy_registry[of current_env state0] by (elim conjE) (erule mp)
  have d: "get_mode_strategy example_env state0 = (daily_strategy, state0)"
    using h(4) mode_strategy_registry[of example_env state0] by (elim conjE) (erule mp)
  show ?thesis using h a b c d by (intro conjI) assumption+
qed

text \<open>
  C7 as stated fails in its last part: for an unrecognized name the lookup falls back to
  the daily strategy without printing a warning.
\<close>

theorem silent_fallback_counterexample:
  "report_mode weekly_env \<notin> set (map fst MODE_STRATEGIES)
   \<and> fst (get_mode_strategy weekly_env state0) = daily_strategy
   \<and> printed (snd (get_mode_strategy weekly_env state0)) = []"
  by (simp add: weekly_env_def example_env_def MODE_STRATEGIES_def get_mode_strategy_def
      state0_def printed_def)

subsection \<open>Crypto prices\<close>

lemmas crypto_defs =
  convert_to_news_format_def convert_step_def colliding_prices_def
  friendly_names_def source_id_of_def ascii_lower_def lower_char_def example_render_def
  example_ticker_def example_request_def fetch_ticker_24h_def with_data_def without_data_def
  requested_def outcome_def reported_def failure_def failure_line_def utf8_output_def
  ascii_output_def Let_def

lemmas version_defs =
  check_version_update_def proxies_of_def parse_version_def parse_version_try_def
  ascii_strip_def is_space_def ascii_int_def is_digit_def digits_value_def truthy_def
  utf8_terminal_def ascii_terminal_def example_http_def Let_def

lemma convert_partition:
  assumes d: "distinct (map fst price_data)"
    and c: "convert_to_news_format lower render price_data = (results, id_to_name, failed_ids)"
  shows "failed_ids = without_data price_data
       \<and> (\<forall>symbol. (symbol, None) \<in> set price_data \<longrightarrow>
             symbol \<in> set failed_ids
             \<and> ((source_id_of lower symbol \<notin> fst ` set results
                  \<and> source_id_of lower symbol \<notin> fst ` set id_to_name)
                 = (\<forall>other \<in> set (with_data price_data).
                      source_id_of lower other \<noteq> source_id_of lower symbol)))
       \<and> (\<forall>symbol data. (symbol, Some data) \<in> set price_data \<longrightarrow>
             symbol \<notin> set failed_ids
             \<and> (\<exists>title td. map_of results (source_id_of lower symbol) = Some [(title, td)])
             \<and> source_id_of lower symbol \<in> fst ` set id_to_name)"
proof -
  from c have f: "foldl (convert_step lower render) ([], [], []) price_data
                    = (results, id_to_name, failed_ids)"
    by (simp add: convert_to_news_format_def)
  from convert_fold[OF f] have
    fl: "failed_ids = without_data price_data"
    and rs: "fst ` set results = source_id_of lower ` set (with_data price_data)"
    and ns: "fst ` set id_to_name = source_id_of lower ` set (with_data price_data)"
    and dr: "distinct (map fst results)"
    and sg: "singletons results"
    by (simp_all add: singletons_def)
  have wd: "symbol \<in> set (with_data price_data) \<longleftrightarrow> (\<exists>data. (symbol, Some data) \<in> set price_data)"
    for symbol
    by (force simp: with_data_def)
  have wo: "symbol \<in> set (without_data price_data) \<longleftrightarrow> (symbol, None) \<in> set price_data"
    for symbol
    by (force simp: without_data_def)
  have uniq: "(symbol, v) \<in> set price_data \<Longrightarrow> (symbol, v') \<in> set price_data \<Longrightarrow> v = v'"
    for symbol v v'
    using d by (meson eq_key_imp_eq_value)
  have none: "symbol \<in> set failed_ids
             \<and> ((source_id_of lower symbol \<notin> fst ` set results
                  \<and> source_id_of lower symbol \<notin> fst ` set id_to_name)
                 = (\<forall>other \<in> set (with_data price_data).
                      source_id_of lower other \<noteq> source_id_of lower symbol))"
    if n: "(symbol, None) \<in> set price_data" for symbol
  proof -
    have "symbol \<in> set failed_ids" using fl wo n by simp
    moreover have "(source_id_of lower symbol \<notin> fst ` set results
                  \<and> source_id_of lower symbol \<notin> fst ` set id_to_name)
                 = (\<forall>other \<in> set (with_data price_data).
                      source_id_of lower other \<noteq> source_id_of lower symbol)"
    proof
      assume "source_id_of lower symbol \<notin> fst ` set results
                \<and> source_id_of lower symbol \<notin> fst ` set id_to_name"
      then show "\<forall>other \<in> set (with_data price_data).
                   source_id_of lower other \<noteq> source_id_of lower symbol"
        unfolding rs by (metis imageI)
    next
      assume "\<forall>other \<in> set (with_data price_data).
                source_id_of lower other \<noteq> source_id_of lower symbol"
      then show "source_id_of lower symbol \<notin> fst ` set results
                   \<and> source_id_of lower symbol \<notin> fst ` set id_to_name"
        unfolding rs ns by auto
    qed
    ultimately show ?thesis by (rule conjI)
  qed
  have some: "symbol \<notin> set failed_ids
             \<and> (\<exists>title td. map_of results (source_id_of lower symbol) = Some [(title, td)])
             \<and> source_id_of lower symbol \<in> fst ` set id_to_name"
    if p: "(symbol, Some data) \<in> set price_data" for symbol data
  proof -
    have a: "symbol \<notin> set failed_ids" using fl wo uniq[OF p] by auto
    have m: "symbol \<in> set (with_data price_data)" using wd p by blast
    then have "source_id_of lower symbol \<in> fst ` set results" using rs by blast
    then obtain ts where t: "(source_id_of lower symbol, ts) \<in> set results" by force
    then have "length ts = 1" using sg by (auto simp: singletons_def list_all_iff)
    then obtain x where "ts = [x]" by (cases ts) auto
    then obtain title td where "ts = [(title, td)]" by (cases x) auto
    then have b: "\<exists>title td. map_of results (source_id_of lower symbol) = Some [(title, td)]"
      using t dr by (auto simp: map_of_eq_Some_iff)
    have "source_id_of lower symbol \<in> fst ` set id_to_name" using ns m by blast
    then show ?thesis using a b by blast
  qed
  show ?thesis using fl none some by blast
qed

text \<open>
  C9, as amended.  \<open>fetch_ticker_24h\<close> returns a map exactly when every \<open>except\<close> clause
  that runs prints its line without an exception; otherwise that exception leaves the
  method.  The keys of the map returned are exactly the requested symbols, each once,
  and every symbol is mapped to the outcome of its round (the last one, when it is
  requested more than once): the ticker, or \<open>None\<close> when the request, or printing the
  line of success, failed.  For a price map, \<open>convert_to_news_format\<close> returns as
  \<open>failed_ids\<close> the symbols without data, in order; a symbol with data is not among them,
  and its source id is in \<open>results\<close>, with exactly one title, and in \<open>id_to_name\<close>.  The
  source id of a symbol without data is in neither \<open>results\<close> nor \<open>id_to_name\<close> exactly
  when no symbol with data has the same source id.
\<close>

theorem fetch_and_convert_partition:
  "((\<exists>r. fetch_ticker_24h request print symbols = Inr r)
      = (\<forall>j < length (requested symbols). reported request print j (requested symbols ! j)))
   \<and> (\<forall>r. fetch_ticker_24h request print symbols = Inr r \<longrightarrow>
        fst ` set r = set (requested symbols)
        \<and> distinct (map fst r)
        \<and> (\<forall>j < length (requested symbols).
             requested symbols ! j \<notin> set (drop (Suc j) (requested symbols)) \<longrightarrow>
             map_of r (requested symbols ! j) =
               Some (outcome request print j (requested symbols ! j))))
   \<and> (distinct (map fst price_data) \<longrightarrow>
        (case convert_to_news_format lower render price_data of
           (results, id_to_name, failed_ids) \<Rightarrow>
             failed_ids = without_data price_data
             \<and> (\<forall>symbol. (symbol, None) \<in> set price_data \<longrightarrow>
                   symbol \<in> set failed_ids
                   \<and> ((source_id_of lower symbol \<notin> fst ` set results
                        \<and> source_id_of lower symbol \<notin> fst ` set id_to_name)
                       = (\<forall>other \<in> set (with_data price_data).
                            source_id_of lower other \<noteq> source_id_of lower symbol)))
             \<and> (\<forall>symbol data. (symbol, Some data) \<in> set price_data \<longrightarrow>
                   symbol \<notin> set failed_ids
                   \<and> (\<exists>title td. map_of results (source_id_of lower symbol) = Some [(title, td)])
                   \<and> source_id_of lower symbol \<in> fst ` set id_to_name)))"
proof (intro conjI)
  show "(\<exists>r. fetch_ticker_24h request print symbols = Inr r)
      = (\<forall>j < length (requested symbols). reported request print j (requested symbols ! j))"
    by (rule fetch_ticker_24h_returns)
next
  show "\<forall>r. fetch_ticker_24h request print symbols = Inr r \<longrightarrow>
        fst ` set r = set (requested symbols)
        \<and> distinct (map fst r)
        \<and> (\<forall>j < length (requested symbols).
             requested symbols ! j \<notin> set (drop (Suc j) (requested symbols)) \<longrightarrow>
             map_of r (requested symbols ! j) =
               Some (outcome request print j (requested symbols ! j)))"
    using fetch_ticker_24h_ok by blast
next
  obtain results id_to_name failed_ids where
    c: "convert_to_news_format lower render price_data = (results, id_to_name, failed_ids)"
    by (metis prod_cases3)
  show "distinct (map fst price_data) \<longrightarrow>
        (case convert_to_news_format lower render price_data of
           (results, id_to_name, failed_ids) \<Rightarrow>
             failed_ids = without_data price_data
             \<and> (\<forall>symbol. (symbol, None) \<in> set price_data \<longrightarrow>
                   symbol \<in> set failed_ids
                   \<and> ((source_id_of lower symbol \<notin> fst ` set results
                        \<and> source_id_of lower symbol \<notin> fst ` set id_to_name)
                       = (\<forall>other \<in> set (with_data price_data).
                            source_id_of lower other \<noteq> source_id_of lower symbol)))
             \<and> (\<forall>symbol data. (symbol, Some data) \<in> set price_data \<longrightarrow>
                   symbol \<notin> set failed_ids
                   \<and> (\<exists>title td. map_of results (source_id_of lower symbol) = Some [(title, td)])
                   \<and> source_id_of lower symbol \<in> fst ` set id_to_name))"
  proof
    assume d: "distinct (map fst price_data)"
    from convert_partition[OF d c] show
      "case convert_to_news_format lower render price_data of
           (results, id_to_name, failed_ids) \<Rightarrow>
             failed_ids = without_data price_data
             \<and> (\<forall>symbol. (symbol, None) \<in> set price_data \<longrightarrow>
                   symbol \<in> set failed_ids
                   \<and> ((source_id_of lower symbol \<notin> fst ` set results
                        \<and> source_id_of lower symbol \<notin> fst ` set id_to_name)
                       = (\<forall>other \<in> set (with_data price_data).
                            source_id_of lower other \<noteq> source_id_of lower symbol)))
             \<and> (\<forall>symbol data. (symbol, Some data) \<in> set price_data \<longrightarrow>
                   symbol \<notin> set failed_ids
                   \<and> (\<exists>title td. map_of results (source_id_of lower symbol) = Some [(title, td)])
                   \<and> source_id_of lower symbol \<in> fst ` set id_to_name)"
      unfolding c prod.case .
  qed
qed

theorem fetch_and_convert_partition_witness:
  "reported example_request utf8_output 0 ''BTCUSDT''
   \<and> reported example_request utf8_output 1 ''DOGEUSDT''
   \<and> fetch_ticker_24h example_request utf8_output (Some [''BTCUSDT'', ''DOGEUSDT''])
       = Inr example_prices
   \<and> map_of example_prices ''DOGEUSDT''
       = Some (outcome example_request utf8_output 1 ''DOGEUSDT'')
   \<and> outcome example_request utf8_output 1 ''DOGEUSDT'' = None
   \<and> distinct (map fst example_prices)
   \<and> (''DOGEUSDT'', None) \<in> set example_prices
   \<and> with_data example_prices = [''BTCUSDT'']
   \<and> source_id_of ascii_lower ''BTCUSDT'' \<noteq> source_id_of ascii_lower ''DOGEUSDT''
   \<and> convert_to_news_format ascii_lower example_render example_prices
       = ([(''crypto_btc'',
            [(''BTC '' @ EMOJI_UP,
              \<lparr>ranks = Some [1], url = Some ''https://www.binance.com/zh-CN/trade/BTCUSDT'',
               mobileUrl = Some ''https://www.binance.com/zh-CN/trade/BTCUSDT''\<rparr>)])],
          [(''crypto_btc'', BTC_NAME)], [''DOGEUSDT''])
   \<and> source_id_of ascii_lower ''DOGEUSDT''
        \<notin> fst ` set [(''crypto_btc'',
                       [(''BTC '' @ EMOJI_UP,
                         \<lparr>ranks = Some [1],
                          url = Some ''https://www.binance.com/zh-CN/trade/BTCUSDT'',
                          mobileUrl = Some ''https://www.binance.com/zh-CN/trade/BTCUSDT''\<rparr>)])]"
proof -
  note t = fetch_and_convert_partition[where request = example_request
      and print = utf8_output and symbols = "Some [''BTCUSDT'', ''DOGEUSDT'']"
      and price_data = example_prices and lower = ascii_lower and render = example_render]
  have rq: "requested (Some [''BTCUSDT'', ''DOGEUSDT'']) = [''BTCUSDT'', ''DOGEUSDT'']"
    by (simp add: requested_def)
  have r0: "reported example_request utf8_output 0 ''BTCUSDT''"
    and r1: "reported example_request utf8_output 1 ''DOGEUSDT''"
    by (simp_all add: reported_def failure_def failure_line_def example_request_def
        utf8_output_def)
  have "\<forall>j < length (requested (Some [''BTCUSDT'', ''DOGEUSDT''])).
          reported example_request utf8_output j (requested (Some [''BTCUSDT'', ''DOGEUSDT'']) ! j)"
    using r0 r1 by (simp add: rq less_Suc_eq_0_disj)
  from t[THEN conjunct1, THEN iffD2, OF this] obtain r where
    r: "fetch_ticker_24h example_request utf8_output (Some [''BTCUSDT'', ''DOGEUSDT'']) = Inr r"
    by blast
  have e: "fetch_ticker_24h example_request utf8_output (Some [''BTCUSDT'', ''DOGEUSDT''])
             = Inr example_prices"
    by (simp add: fetch_ticker_24h_def example_request_def example_prices_def utf8_output_def
        failure_line_def)
  have re: "r = example_prices" using r e by simp
  note k = t[THEN conjunct2, THEN conjunct1, THEN spec, THEN mp, OF r]
  have m: "map_of example_prices ''DOGEUSDT''
             = Some (outcome example_request utf8_output 1 ''DOGEUSDT'')"
    using k[THEN conjunct2, THEN conjunct2, THEN spec, of 1] by (simp add: rq re)
  have o: "outcome example_request utf8_output 1 ''DOGEUSDT'' = None"
    by (simp add: outcome_def example_request_def)
  have h: "distinct (map fst example_prices)"
    by (simp add: example_prices_def)
  have n: "(''DOGEUSDT'', None) \<in> set example_prices" by (simp add: example_prices_def)
  have w: "with_data example_prices = [''BTCUSDT'']"
    by (simp add: with_data_def example_prices_def)
  have i: "source_id_of ascii_lower ''BTCUSDT'' \<noteq> source_id_of ascii_lower ''DOGEUSDT''"
    by (simp add: source_id_of_def friendly_names_def ascii_lower_def lower_char_def Let_def)
  have v: "convert_to_news_format ascii_lower example_render example_prices
       = ([(''crypto_btc'',
            [(''BTC '' @ EMOJI_UP,
              \<lparr>ranks = Some [1], url = Some ''https://www.binance.com/zh-CN/trade/BTCUSDT'',
               mobileUrl = Some ''https://www.binance.com/zh-CN/trade/BTCUSDT''\<rparr>)])],
          [(''crypto_btc'', BTC_NAME)], [''DOGEUSDT''])"
    by (simp add: example_prices_def crypto_defs)
  note p = t[THEN conjunct2, THEN conjunct2, THEN mp, OF h, unfolded v prod.case]
  have a: "\<forall>other \<in> set (with_data example_prices).
             source_id_of ascii_lower other \<noteq> source_id_of ascii_lower ''DOGEUSDT''"
    using i by (simp add: w)
  note q = p[THEN conjunct2, THEN conjunct1, THEN spec, THEN mp, OF n,
      THEN conjunct2, THEN iffD2, OF a, THEN conjunct1]
  show ?thesis using r0 r1 e m o h n w i v q by (intro conjI) assumption+
qed

text \<open>
  C9 as stated fails in two ways.  On a standard output whose encoding is ASCII the
  line of the \<open>except\<close> clause cannot be written, and the \<open>UnicodeEncodeError\<close> of that
  \<open>print\<close> leaves \<open>fetch_ticker_24h\<close>: the failed symbol is not mapped to \<open>None\<close>, the
  method raises.  And two symbols can have the same source id: \<open>DAIUSDT\<close> and \<open>USDTDAI\<close>
  both map to \<open>crypto_dai\<close>, so when the first fails and the second succeeds, the failed
  symbol is in \<open>failed_ids\<close> while its source id is in \<open>results\<close> and in \<open>id_to_name\<close>.
\<close>

theorem fetch_raises_or_source_ids_collide_counterexample:
  "fetch_ticker_24h example_request ascii_output (Some [''DOGEUSDT'', ''BTCUSDT''])
     = Inl ValueError
   \<and> fetch_ticker_24h example_request utf8_output (Some [''DAIUSDT'', ''USDTDAI''])
       = Inr colliding_prices
   \<and> (''DAIUSDT'', None) \<in> set colliding_prices
   \<and> convert_to_news_format ascii_lower example_render colliding_prices
       = ([(''crypto_dai'',
            [(''DAI '' @ EMOJI_UP,
              \<lparr>ranks = Some [1], url = Some ''https://www.binance.com/zh-CN/trade/USDTDAI'',
               mobileUrl = Some ''https://www.binance.com/zh-CN/trade/USDTDAI''\<rparr>)])],
          [(''crypto_dai'', ''DAI'')], [''DAIUSDT''])
   \<and> source_id_of ascii_lower ''DAIUSDT'' = ''crypto_dai''"
proof -
  have z: "fetch_ticker_24h example_request ascii_output (Some [''DOGEUSDT'', ''BTCUSDT''])
             = Inl ValueError"
    by (simp add: fetch_ticker_24h_def example_request_def ascii_output_def failure_line_def)
  have a: "fetch_ticker_24h example_request utf8_output (Some [''DAIUSDT'', ''USDTDAI''])
             = Inr colliding_prices"
    by (simp add: fetch_ticker_24h_def example_request_def colliding_prices_def
        utf8_output_def failure_line_def)
  have b: "(''DAIUSDT'', None) \<in> set colliding_prices"
    by (simp add: colliding_prices_def)
  have c: "convert_to_news_format ascii_lower example_render colliding_prices
       = ([(''crypto_dai'',
            [(''DAI '' @ EMOJI_UP,
              \<lparr>ranks = Some [1], url = Some ''https://www.binance.com/zh-CN/trade/USDTDAI'',
               mobileUrl = Some ''https://www.binance.com/zh-CN/trade/USDTDAI''\<rparr>)])],
          [(''crypto_dai'', ''DAI'')], [''DAIUSDT''])"
    by (simp add: convert_to_news_format_def convert_step_def colliding_prices_def
      friendly_names_def ascii_lower_def lower_char_def example_render_def example_ticker_def
      Let_def)
  have d: "source_id_of ascii_lower ''DAIUSDT'' = ''crypto_dai''"
    by (simp add: source_id_of_def friendly_names_def ascii_lower_def lower_char_def Let_def)
  show ?thesis using z a b c d by (intro conjI) assumption+
qed

subsection \<open>Version check\<close>

text \<open>
  C10, as amended.  \<open>check_version_update\<close> returns whenever printing the line of
  failure raises nothing; an exception of that \<open>print\<close> leaves the function.  When the
  request fails, or printing the two versions does, the function prints the line of
  failure and returns \<open>(False, None)\<close>.  Otherwise it reports an update exactly when the
  triple parsed from the current version is lexicographically less than the one parsed
  from the stripped response, and then returns the stripped response with it.  A string
  that does not split at the dots into three parts accepted by \<open>int\<close> parses as
  \<open>(0, 0, 0)\<close>, and that triple is compared like any other.  So a malformed remote
  version triggers no update report, unless the current version's own triple is below
  \<open>(0, 0, 0)\<close>.
\<close>

theorem check_version_update_never_raises:
  "((\<forall>e. print (VersionCheckFailed e) = None) \<longrightarrow>
      (\<exists>r. check_version_update http_get print strip py_int current_version version_url
              proxy_url = Inr r))
   \<and> (http_get version_url (proxies_of proxy_url) = Inl e \<longrightarrow>
        check_version_update http_get print strip py_int current_version version_url proxy_url =
          (case print (VersionCheckFailed e) of
             None \<Rightarrow> Inr (False, None)
           | Some e' \<Rightarrow> Inl e'))
   \<and> (http_get version_url (proxies_of proxy_url) = Inr response_text
        \<and> print (VersionsFound current_version (strip response_text)) = Some e \<longrightarrow>
        check_version_update http_get print strip py_int current_version version_url proxy_url =
          (case print (VersionCheckFailed e) of
             None \<Rightarrow> Inr (False, None)
           | Some e' \<Rightarrow> Inl e'))
   \<and> (http_get version_url (proxies_of proxy_url) = Inr response_text
        \<and> print (VersionsFound current_version (strip response_text)) = None \<longrightarrow>
        check_version_update http_get print strip py_int current_version version_url proxy_url =
          Inr (tuple_less (parse_version strip py_int current_version)
                 (parse_version strip py_int (strip response_text)),
               if tuple_less (parse_version strip py_int current_version)
                    (parse_version strip py_int (strip response_text))
               then Some (strip response_text) else None))
   \<and> parse_version strip py_int v =
        (case map py_int (split_dot (strip v)) of
           [Some a, Some b, Some c] \<Rightarrow> (a, b, c)
         | _ \<Rightarrow> (0, 0, 0))
   \<and> (http_get version_url (proxies_of proxy_url) = Inr response_text
        \<and> isl (parse_version_try strip py_int (strip response_text))
        \<and> \<not> tuple_less (parse_version strip py_int current_version) (0, 0, 0)
        \<and> (\<forall>e. print (VersionCheckFailed e) = None) \<longrightarrow>
        check_version_update http_get print strip py_int current_version version_url proxy_url
          = Inr (False, None))"
proof -
  have p: "parse_version strip py_int v =
        (case map py_int (split_dot (strip v)) of
           [Some a, Some b, Some c] \<Rightarrow> (a, b, c)
         | _ \<Rightarrow> (0, 0, 0))" for v
  proof (cases "split_dot (strip v)")
    case Nil
    then show ?thesis by (simp add: parse_version_def parse_version_try_def)
  next
    case (Cons x xs)
    then show ?thesis
      by (cases xs; cases "tl xs"; cases "tl (tl xs)")
         (auto simp: parse_version_def parse_version_try_def split: option.splits)
  qed
  have m: "isl (parse_version_try strip py_int w) \<Longrightarrow> parse_version strip py_int w = (0, 0, 0)"
    for w
    by (cases "parse_version_try strip py_int w") (simp_all add: parse_version_def)
  have c1: "(\<forall>e. print (VersionCheckFailed e) = None) \<longrightarrow>
      (\<exists>r. check_version_update http_get print strip py_int current_version version_url
              proxy_url = Inr r)"
  proof
    assume n: "\<forall>e. print (VersionCheckFailed e) = None"
    show "\<exists>r. check_version_update http_get print strip py_int current_version version_url
              proxy_url = Inr r"
      by (cases "http_get version_url (proxies_of proxy_url)";
          cases "print (VersionsFound current_version
                   (strip (projr (http_get version_url (proxies_of proxy_url)))))")
         (auto simp: check_version_update_def Let_def n)
  qed
  have c2: "http_get version_url (proxies_of proxy_url) = Inl e \<longrightarrow>
        check_version_update http_get print strip py_int current_version version_url proxy_url =
          (case print (VersionCheckFailed e) of
             None \<Rightarrow> Inr (False, None)
           | Some e' \<Rightarrow> Inl e')"
    by (simp add: check_version_update_def Let_def)
  have c3: "http_get version_url (proxies_of proxy_url) = Inr response_text
        \<and> print (VersionsFound current_version (strip response_text)) = Some e \<longrightarrow>
        check_version_update http_get print strip py_int current_version version_url proxy_url =
          (case print (VersionCheckFailed e) of
             None \<Rightarrow> Inr (False, None)
           | Some e' \<Rightarrow> Inl e')"
    by (simp add: check_version_update_def Let_def)
  have c4: "http_get version_url (proxies_of proxy_url) = Inr response_text
        \<and> print (VersionsFound current_version (strip response_text)) = None \<longrightarrow>
        check_version_update http_get print strip py_int current_version version_url proxy_url =
          Inr (tuple_less (parse_version strip py_int current_version)
                 (parse_version strip py_int (strip response_text)),
               if tuple_less (parse_version strip py_int current_version)
                    (parse_version strip py_int (strip response_text))
               then Some (strip response_text) else None)"
    by (simp add: check_version_update_def Let_def)
  have c6: "http_get version_url (proxies_of proxy_url) = Inr response_text
        \<and> isl (parse_version_try strip py_int (strip response_text))
        \<and> \<not> tuple_less (parse_version strip py_int current_version) (0, 0, 0)
        \<and> (\<forall>e. print (VersionCheckFailed e) = None) \<longrightarrow>
        check_version_update http_get print strip py_int current_version version_url proxy_url
          = Inr (False, None)"
    using m[of "strip response_text"]
    by (cases "print (VersionsFound current_version (strip response_text))")
       (auto simp: check_version_update_def Let_def)
  show ?thesis using c1 c2 c3 c4 p[of v] c6 by (intro conjI) assumption+
qed

theorem check_version_update_never_raises_witness:
  "example_http ''https://example.org/down'' (proxies_of None) = Inl RequestException
   \<and> utf8_terminal (VersionCheckFailed RequestException) = None
   \<and> check_version_update example_http utf8_terminal ascii_strip ascii_int ''4.0.3''
       ''https://example.org/down'' None = Inr (False, None)
   \<and> example_http ''https://example.org/version'' (proxies_of None) = Inr ''4.1.0''
   \<and> utf8_terminal (VersionsFound ''4.0.3'' (ascii_strip ''4.1.0'')) = None
   \<and> check_version_update example_http utf8_terminal ascii_strip ascii_int ''4.0.3''
       ''https://example.org/version'' None = Inr (True, Some ''4.1.0'')
   \<and> example_http ''https://example.org/page'' (proxies_of None) = Inr ''not a version''
   \<and> isl (parse_version_try ascii_strip ascii_int (ascii_strip ''not a version''))
   \<and> \<not> tuple_less (parse_version ascii_strip ascii_int ''4.0.3'') (0, 0, 0)
   \<and> check_version_update example_http utf8_terminal ascii_strip ascii_int ''4.0.3''
       ''https://example.org/page'' None = Inr (False, None)"
proof -
  have h: "example_http ''https://example.org/down'' (proxies_of None) = Inl RequestException"
    "example_http ''https://example.org/version'' (proxies_of None) = Inr ''4.1.0''"
    "example_http ''https://example.org/page'' (proxies_of None) = Inr ''not a version''"
    by (simp_all add: example_http_def)
  have u: "utf8_terminal (VersionCheckFailed RequestException) = None"
    "utf8_terminal (VersionsFound ''4.0.3'' (ascii_strip ''4.1.0'')) = None"
    "\<forall>e. utf8_terminal (VersionCheckFailed e) = None"
    by (simp_all add: utf8_terminal_def)
  have q: "isl (parse_version_try ascii_strip ascii_int (ascii_strip ''not a version''))"
    "\<not> tuple_less (parse_version ascii_strip ascii_int ''4.0.3'') (0, 0, 0)"
    "tuple_less (parse_version ascii_strip ascii_int ''4.0.3'')
       (parse_version ascii_strip ascii_int ''4.1.0'')"
    "ascii_strip ''4.1.0'' = ''4.1.0''"
    by (simp_all add: version_defs)
  note t = check_version_update_never_raises[where http_get = example_http
      and print = utf8_terminal and strip = ascii_strip and py_int = ascii_int
      and current_version = "''4.0.3''" and proxy_url = None]
  have a: "check_version_update example_http utf8_terminal ascii_strip ascii_int ''4.0.3''
             ''https://example.org/down'' None = Inr (False, None)"
    using t[where version_url = "''https://example.org/down''" and e = RequestException,
        THEN conjunct2, THEN conjunct1, THEN mp, OF h(1)]
    by (simp add: u(1))
  have b: "check_version_update example_http utf8_terminal ascii_strip ascii_int ''4.0.3''
             ''https://example.org/version'' None = Inr (True, Some ''4.1.0'')"
    using t[where version_url = "''https://example.org/version''" and response_text = "''4.1.0''",
        THEN conjunct2, THEN conjunct2, THEN conjunct2, THEN conjunct1, THEN mp,
        OF conjI, OF h(2) u(2)]
    by (simp add: q(3) q(4))
  have g: "example_http ''https://example.org/page'' (proxies_of None) = Inr ''not a version''
        \<and> isl (parse_version_try ascii_strip ascii_int (ascii_strip ''not a version''))
        \<and> \<not> tuple_less (parse_version ascii_strip ascii_int ''4.0.3'') (0, 0, 0)
        \<and> (\<forall>e. utf8_terminal (VersionCheckFailed e) = None)"
    using h(3) q(1) q(2) u(3) by (intro conjI) assumption+
  have c: "check_version_update example_http utf8_terminal ascii_strip ascii_int ''4.0.3''
             ''https://example.org/page'' None = Inr (False, None)"
    by (rule t[where version_url = "''https://example.org/page''"
          and response_text = "''not a version''",
        THEN conjunct2, THEN conjunct2, THEN conjunct2, THEN conjunct2, THEN conjunct2,
        THEN mp, OF g])
  show ?thesis using h u(1) u(2) q(1) q(2) a b c by (intro conjI) assumption+
qed

text \<open>
  C10 as stated fails in three ways.  On a standard output whose encoding is ASCII
  neither line can be written: the \<open>UnicodeEncodeError\<close> of the handler's \<open>print\<close> leaves
  the function, whether the request failed or not.  A current version that does not
  parse is not answered with \<open>(False, None)\<close>: it counts as \<open>(0, 0, 0)\<close>, and any higher
  remote version is reported.  And \<open>int\<close> accepts a sign, so the current version
  \<open>-1.0.0\<close> parses as \<open>(-1, 0, 0)\<close>, which is less than the \<open>(0, 0, 0)\<close> of a malformed
  remote version, and the update is reported.
\<close>

theorem version_check_raises_or_reports_counterexample:
  "check_version_update example_http ascii_terminal ascii_strip ascii_int ''4.0.3''
     ''https://example.org/down'' None = Inl ValueError
   \<and> check_version_update example_http ascii_terminal ascii_strip ascii_int ''4.0.3''
       ''https://example.org/version'' None = Inl ValueError
   \<and> isl (parse_version_try ascii_strip ascii_int ''dev'')
   \<and> check_version_update example_http utf8_terminal ascii_strip ascii_int ''dev''
       ''https://example.org/version'' None = Inr (True, Some ''4.1.0'')
   \<and> isl (parse_version_try ascii_strip ascii_int (ascii_strip ''not a version''))
   \<and> check_version_update example_http utf8_terminal ascii_strip ascii_int ''-1.0.0''
       ''https://example.org/page'' None = Inr (True, Some ''not a version'')"
  by (simp add: version_defs)

end
